theory Spec2Isabelle
  imports Complex_Main "HOL-Library.AList" "HOL-Library.List_Lexorder" "HOL-Library.Multiset"
begin

section \<open>Data model: strings and JSON values\<close>

text \<open>
  A JavaScript string is a sequence of UTF-16 code units; it is modelled as a list of
  natural numbers. \<open>u\<close> embeds an ASCII literal. JSON values are the values that
  \<open>JSON.parse\<close> produces: an object is an association list in property order, in which
  every key occurs once. Numbers are the finite values a JSON numeral denotes; the
  rounding of binary floating point is not modelled.
\<close>

type_synonym ustring = "nat list"

definition u :: "string \<Rightarrow> ustring" where
  "u s = map of_char s"

datatype json =
    JNull
  | JBool bool
  | JNum rat
  | JStr ustring
  | JArr "json list"
  | JObj "(ustring \<times> json) list"

type_synonym obj = "(ustring \<times> json) list"

text \<open>Property read \<open>o[k]\<close> (\<open>None\<close> is \<open>undefined\<close>), write \<open>o[k] = v\<close> (a new key is
  appended, an existing one keeps its place) and \<open>delete o[k]\<close>.\<close>

definition obj_get :: "obj \<Rightarrow> ustring \<Rightarrow> json option" where
  "obj_get ob k = map_of ob k"

definition obj_set :: "ustring \<Rightarrow> json \<Rightarrow> obj \<Rightarrow> obj" where
  "obj_set k v ob = AList.update k v ob"

definition obj_delete :: "ustring \<Rightarrow> obj \<Rightarrow> obj" where
  "obj_delete k ob = AList.delete k ob"

text \<open>Truthiness of a value, and of a property read.\<close>

fun truthy :: "json \<Rightarrow> bool" where
  "truthy JNull = False"
| "truthy (JBool b) = b"
| "truthy (JNum r) = (r \<noteq> 0)"
| "truthy (JStr s) = (s \<noteq> [])"
| "truthy (JArr xs) = True"
| "truthy (JObj kvs) = True"

fun truthy_opt :: "json option \<Rightarrow> bool" where
  "truthy_opt None = False"
| "truthy_opt (Some v) = truthy v"

text \<open>\<open>a || b || d\<close> on two property reads and a default.\<close>

definition or_else :: "json option \<Rightarrow> json option \<Rightarrow> json \<Rightarrow> json" where
  "or_else a b d = (if truthy_opt a then the a else if truthy_opt b then the b else d)"

text \<open>The code units that \<open>String.prototype.trim\<close> and the regular-expression class
  \<open>\s\<close> treat as white space.\<close>

definition js_space :: "nat \<Rightarrow> bool" where
  "js_space c = (c \<in> {9, 10, 11, 12, 13, 32, 160, 5760, 8232, 8233, 8239, 8287, 12288, 65279}
                 \<or> (8192 \<le> c \<and> c \<le> 8202))"

definition trim :: "ustring \<Rightarrow> ustring" where
  "trim s = rev (dropWhile js_space (rev (dropWhile js_space s)))"

text \<open>
  Property access on a plain object, whose prototype is \<open>Object.prototype\<close>. A read of
  a key that is not an own property finds the member of the prototype with that name, if
  there is one, and \<open>undefined\<close> otherwise. An assignment \<open>o[k] = v\<close> writes an own
  property, except for the key \<open>__proto__\<close> on an object that has no own property of
  that name: that assignment runs the setter of the prototype and adds no key. The model
  keeps the own properties of an object; the prototype that such an assignment installs
  is not part of it.
\<close>

definition K_proto :: ustring where "K_proto = u ''__proto__''"

definition prototype_members :: "ustring list" where
  "prototype_members = [u ''constructor'', u ''__defineGetter__'', u ''__defineSetter__'',
     u ''hasOwnProperty'', u ''__lookupGetter__'', u ''__lookupSetter__'', u ''isPrototypeOf'',
     u ''propertyIsEnumerable'', u ''toString'', u ''valueOf'', u ''__proto__'',
     u ''toLocaleString'']"

definition typeof_undefined :: "obj \<Rightarrow> ustring \<Rightarrow> bool" where
  "typeof_undefined ob k = (obj_get ob k = None \<and> k \<notin> set prototype_members)"

definition js_assign :: "ustring \<Rightarrow> json \<Rightarrow> obj \<Rightarrow> obj" where
  "js_assign k v ob = (if k = K_proto \<and> k \<notin> fst ` set ob then ob else obj_set k v ob)"

section \<open>Merger (inferencer/index.js, mergeCapsules)\<close>

definition DEFAULT_CONTEXT :: ustring where
  "DEFAULT_CONTEXT = u ''https://agentnet.ai/context''"

definition K_context :: ustring where "K_context = u ''@context''"
definition K_type :: ustring where "K_type = u ''@type''"
definition K_inferred :: ustring where "K_inferred = u ''agentnet:inferred''"

definition asObject :: "json \<Rightarrow> obj" where
  "asObject x = (case x of JObj kvs \<Rightarrow> kvs | _ \<Rightarrow> [])"

text \<open>Decimal rendering of an array index, for the keys that object spread gives to the
  elements of an array or the characters of a string.\<close>

function dec :: "nat \<Rightarrow> ustring" where
  "dec n = (if n < 10 then [48 + n] else dec (n div 10) @ [48 + n mod 10])"
  by pat_completeness auto
termination
  by (relation "measure id") auto

declare dec.simps [simp del]

text \<open>\<open>{...x}\<close>: the own enumerable properties of a value.\<close>

definition own_entries :: "json \<Rightarrow> obj" where
  "own_entries x = (case x of
       JObj kvs \<Rightarrow> kvs
     | JArr xs \<Rightarrow> map (\<lambda>i. (dec i, xs ! i)) [0..<length xs]
     | JStr s \<Rightarrow> map (\<lambda>i. (dec i, JStr [s ! i])) [0..<length s]
     | _ \<Rightarrow> [])"

definition spread2 :: "json \<Rightarrow> json \<Rightarrow> obj" where
  "spread2 a b = fold (\<lambda>(k, v). obj_set k v) (own_entries b) (own_entries a)"

text \<open>\<open>isEmptyExplicit\<close>: \<open>typeof orig[k]\<close> is \<open>undefined\<close>, or the value is a string that
  \<open>trim\<close> empties.\<close>

definition isEmptyExplicit :: "obj \<Rightarrow> ustring \<Rightarrow> bool" where
  "isEmptyExplicit orig k =
     (typeof_undefined orig k
      \<or> (case obj_get orig k of Some (JStr s) \<Rightarrow> trim s = [] | _ \<Rightarrow> False))"

definition hasExplicit :: "obj \<Rightarrow> ustring \<Rightarrow> bool" where
  "hasExplicit orig k = (k \<in> fst ` set orig)"

definition merge_step :: "obj \<Rightarrow> bool \<Rightarrow> ustring \<times> json \<Rightarrow> obj \<Rightarrow> obj" where
  "merge_step orig overwriteExplicit kv out =
     (let k = fst kv; v = snd kv in
      if k = K_context \<or> k = K_type \<or> k = K_inferred then out
      else if \<not> hasExplicit orig k \<or> isEmptyExplicit orig k \<or> overwriteExplicit
           then js_assign k v out
           else out)"

definition mergeCapsules :: "json \<Rightarrow> json \<Rightarrow> bool \<Rightarrow> obj" where
  "mergeCapsules original inferred overwriteExplicit =
     (let orig = asObject original;
          infd = asObject inferred;
          out0 = orig;
          prov = (if truthy_opt (obj_get out0 K_inferred) then the (obj_get out0 K_inferred)
                  else JObj []);
          out1 = obj_set K_context
                   (or_else (obj_get out0 K_context) (obj_get infd K_context) (JStr DEFAULT_CONTEXT))
                   out0;
          out2 = obj_set K_type
                   (or_else (obj_get out1 K_type) (obj_get infd K_type) (JStr (u ''agentnet:Thing'')))
                   out1;
          out3 = fold (merge_step orig overwriteExplicit) infd out2
      in if truthy_opt (obj_get infd K_inferred)
         then obj_set K_inferred (JObj (spread2 prov (the (obj_get infd K_inferred)))) out3
         else if own_entries prov \<noteq> [] then obj_set K_inferred prov out3
         else out3)"

text \<open>
  The words of the specification: the asserted object has a non-empty value for a key
  when the key is present and its value is not a string made of white space only.
\<close>

definition white_space_only :: "ustring \<Rightarrow> bool" where
  "white_space_only s = (\<forall>c \<in> set s. js_space c)"

definition asserted_nonempty :: "json \<Rightarrow> ustring \<Rightarrow> bool" where
  "asserted_nonempty original k =
     (case original of
        JObj kvs \<Rightarrow> (case map_of kvs k of
                       None \<Rightarrow> False
                     | Some (JStr s) \<Rightarrow> \<not> white_space_only s
                     | Some v \<Rightarrow> True)
      | _ \<Rightarrow> False)"

section \<open>Built-ins of the JavaScript platform\<close>

text \<open>
  Results of \<open>Number(...)\<close>: a finite value, \<open>NaN\<close> or an infinity.
\<close>

datatype jsnum = Fin rat | NaN | PInf | NInf

datatype js_error = TypeError

text \<open>
  The built-ins whose results the source does not determine are fields of a record that
  every operation takes as its first argument: the conversion of a string to a number and
  back, the SHA-256 digest in hexadecimal, the locale's collation (\<open>a.localeCompare(b) \<le> 0\<close>),
  \<open>JSON.parse\<close>, the quoting of a string by \<open>JSON.stringify\<close>, and the contents of the
  \<open>application/ld+json\<close> script elements that the HTML parser selects from a markup
  string, in document order. \<open>JSON.parse\<close>, the digest and the HTML parser are library
  calls that may throw: their result is \<open>None\<close> then.
\<close>

record platform =
  str_to_num :: "ustring \<Rightarrow> jsnum"
  num_to_str :: "rat \<Rightarrow> ustring"
  sha256_hex :: "ustring \<Rightarrow> ustring option"
  locale_le :: "ustring \<Rightarrow> ustring \<Rightarrow> bool"
  json_parse :: "ustring \<Rightarrow> json option"
  json_quote :: "ustring \<Rightarrow> ustring"
  ld_scripts :: "ustring \<Rightarrow> ustring list option"

text \<open>
  \<open>String(v)\<close>. An array is joined with commas, \<open>null\<close> elements giving the empty
  string. A plain object gives \<open>[object Object]\<close>, unless it has an own property
  \<open>toString\<close>: a parsed JSON value is never callable, so the conversion finds no method
  and throws a \<open>TypeError\<close> (\<open>None\<close>).
\<close>

fun join_with :: "ustring \<Rightarrow> ustring list \<Rightarrow> ustring" where
  "join_with sep [] = []"
| "join_with sep [x] = x"
| "join_with sep (x # y # ys) = x @ sep @ join_with sep (y # ys)"

fun sequence_opt :: "'a option list \<Rightarrow> 'a list option" where
  "sequence_opt [] = Some []"
| "sequence_opt (None # xs) = None"
| "sequence_opt (Some x # xs) = (case sequence_opt xs of None \<Rightarrow> None | Some ys \<Rightarrow> Some (x # ys))"

fun js_to_string :: "platform \<Rightarrow> json \<Rightarrow> ustring option"
  and js_join_item :: "platform \<Rightarrow> json \<Rightarrow> ustring option" where
  "js_to_string P JNull = Some (u ''null'')"
| "js_to_string P (JBool b) = Some (if b then u ''true'' else u ''false'')"
| "js_to_string P (JNum r) = Some (num_to_str P r)"
| "js_to_string P (JStr s) = Some s"
| "js_to_string P (JArr xs) =
     (case sequence_opt (map (js_join_item P) xs) of
        None \<Rightarrow> None
      | Some ss \<Rightarrow> Some (join_with (u '','') ss))"
| "js_to_string P (JObj kvs) =
     (if u ''toString'' \<in> fst ` set kvs then None else Some (u ''[object Object]''))"
| "js_join_item P x = (if x = JNull then Some [] else js_to_string P x)"

text \<open>\<open>Number(v)\<close>: an object or array is converted to a string first.\<close>

definition js_Number :: "platform \<Rightarrow> json \<Rightarrow> js_error + jsnum" where
  "js_Number P v = (case v of
       JNull \<Rightarrow> Inr (Fin 0)
     | JBool b \<Rightarrow> Inr (Fin (if b then 1 else 0))
     | JNum r \<Rightarrow> Inr (Fin r)
     | JStr s \<Rightarrow> Inr (str_to_num P s)
     | _ \<Rightarrow> (case js_to_string P v of None \<Rightarrow> Inl TypeError | Some s \<Rightarrow> Inr (str_to_num P s)))"

section \<open>Tiny-price guardrail (worker.js, guardTinyPrice)\<close>

definition K_price :: ustring where "K_price = u ''agentnet:price''"
definition K_priceGuardrail :: ustring where "K_priceGuardrail = u ''priceGuardrail''"

text \<open>\<open>content?.["agentnet:price"]\<close>: only an object has the property.\<close>

definition price_of :: "json \<Rightarrow> json option" where
  "price_of content = (case content of JObj kvs \<Rightarrow> obj_get kvs K_price | _ \<Rightarrow> None)"

definition tiny_price_note :: "rat \<Rightarrow> json" where
  "tiny_price_note n = JObj
     [(u ''dropped'', JBool True),
      (u ''reason'', JStr (u ''tiny_price'')),
      (u ''threshold'', JNum 5),
      (u ''observed'', JNum n)]"

text \<open>
  The function mutates \<open>content\<close> and \<open>report\<close> in place. The model returns the two objects
  as they are when the function ends, with the exception it ended by, if any.
\<close>

definition guardTinyPrice :: "platform \<Rightarrow> json \<Rightarrow> obj \<Rightarrow> js_error option \<times> json \<times> obj" where
  "guardTinyPrice P content report =
     (case price_of content of
        None \<Rightarrow> (None, content, report)
      | Some JNull \<Rightarrow> (None, content, report)
      | Some p \<Rightarrow>
         (case js_Number P p of
            Inl e \<Rightarrow> (Some e, content, report)
          | Inr (Fin n) \<Rightarrow>
              if 0 < n \<and> n < 5
              then (None, JObj (obj_delete K_price (asObject content)),
                    obj_set K_priceGuardrail (tiny_price_note n) report)
              else (None, content, report)
          | Inr _ \<Rightarrow> (None, content, report)))"

text \<open>The price the guardrail looks at: present, not \<open>null\<close>, and a finite number.\<close>

definition finite_price :: "platform \<Rightarrow> json \<Rightarrow> rat option" where
  "finite_price P content =
     (case price_of content of
        None \<Rightarrow> None
      | Some JNull \<Rightarrow> None
      | Some p \<Rightarrow> (case js_Number P p of Inr (Fin n) \<Rightarrow> Some n | _ \<Rightarrow> None))"

section \<open>A reference platform for evaluating examples\<close>

text \<open>
  Plain decimal literals of \<open>StringToNumber\<close>: surrounding white space, an optional sign,
  digits with an optional fraction; the empty string is zero, anything else \<open>NaN\<close>.
\<close>

definition is_digit :: "nat \<Rightarrow> bool" where
  "is_digit c = (48 \<le> c \<and> c \<le> 57)"

definition digits_val :: "ustring \<Rightarrow> nat" where
  "digits_val ds = foldl (\<lambda>acc c. 10 * acc + (c - 48)) 0 ds"

definition unsigned_decimal :: "ustring \<Rightarrow> rat option" where
  "unsigned_decimal s =
     (let ip = takeWhile is_digit s; rest = dropWhile is_digit s in
      if rest = [] then (if ip = [] then None else Some (of_nat (digits_val ip)))
      else if hd rest = 46 \<and> list_all is_digit (tl rest) \<and> (ip \<noteq> [] \<or> tl rest \<noteq> [])
      then Some (of_nat (digits_val ip) + of_nat (digits_val (tl rest)) / of_nat (10 ^ length (tl rest)))
      else None)"

definition decimal_number :: "ustring \<Rightarrow> jsnum" where
  "decimal_number s =
     (let t = trim s in
      if t = [] then Fin 0
      else if hd t = 45 then (case unsigned_decimal (tl t) of None \<Rightarrow> NaN | Some r \<Rightarrow> Fin (- r))
      else if hd t = 43 then (case unsigned_decimal (tl t) of None \<Rightarrow> NaN | Some r \<Rightarrow> Fin r)
      else (case unsigned_decimal t of None \<Rightarrow> NaN | Some r \<Rightarrow> Fin r))"

text \<open>Code-unit order stands for the collation, the identity for the digest and the
  quoting; integers print in decimal; no string parses and no markup has scripts.\<close>

definition ref_platform :: platform where
  "ref_platform = \<lparr>
     str_to_num = decimal_number,
     num_to_str = (\<lambda>r. if r = of_int \<lfloor>r\<rfloor> \<and> 0 \<le> r then dec (nat \<lfloor>r\<rfloor>) else u ''?''),
     sha256_hex = (\<lambda>s. Some s),
     locale_le = (\<lambda>a b. a \<le> b),
     json_parse = (\<lambda>s. None),
     json_quote = (\<lambda>s. [34] @ s @ [34]),
     ld_scripts = (\<lambda>h. Some []) \<rparr>"

section \<open>Persistence (db.js, insertCapsule)\<close>

datatype status = Ok | NeedsReview | Error

record capsule_row =
  row_node :: nat
  row_fingerprint :: ustring
  row_capsule :: obj
  row_harvested :: ustring
  row_status :: status

text \<open>The store: its rows, and whether the connection pool answers queries. A query on
  a pool that does not answer rejects.\<close>

record store =
  rows :: "capsule_row list"
  answering :: bool

datatype exn = Exn ustring

text \<open>The timestamp loses its first \<open>T\<close>, its first \<open>Z\<close> and everything from the first
  dot on.\<close>

fun remove_first :: "nat \<Rightarrow> ustring \<Rightarrow> ustring" where
  "remove_first c [] = []"
| "remove_first c (x # xs) = (if x = c then xs else x # remove_first c xs)"

fun replace_first :: "nat \<Rightarrow> nat \<Rightarrow> ustring \<Rightarrow> ustring" where
  "replace_first c d [] = []"
| "replace_first c d (x # xs) = (if x = c then d # xs else x # replace_first c d xs)"

definition mysql_datetime :: "ustring \<Rightarrow> ustring" where
  "mysql_datetime t = takeWhile (\<lambda>c. c \<noteq> 46) (remove_first 90 (replace_first 84 32 t))"

text \<open>
  \<open>INSERT ... ON DUPLICATE KEY UPDATE\<close>: the schema gives the capsule table no unique key
  besides its generated identifier, so no insert meets a duplicate and every insert adds
  a row.
\<close>

definition insertCapsule ::
  "store \<Rightarrow> nat \<Rightarrow> obj \<Rightarrow> ustring \<Rightarrow> ustring \<Rightarrow> status \<Rightarrow> exn + store" where
  "insertCapsule db node_id capsule_json fingerprint harvested_at st =
     (if answering db
      then Inr (db\<lparr>rows := rows db @
                 [\<lparr>row_node = node_id, row_fingerprint = fingerprint, row_capsule = capsule_json,
                   row_harvested = mysql_datetime harvested_at, row_status = st\<rparr>]\<rparr>)
      else Inl (Exn (u ''query failed'')))"

section \<open>Validation gate (worker.js, crawlSite, after the fingerprint)\<close>

record site_stats =
  stats_pages :: nat
  stats_capsules :: nat
  stats_inferred :: nat
  stats_errors :: nat
  stats_schemaErrors :: nat
  stats_rejected :: nat
  stats_inserted :: nat

definition zero_stats :: site_stats where
  "zero_stats = \<lparr>stats_pages = 0, stats_capsules = 0, stats_inferred = 0, stats_errors = 0,
     stats_schemaErrors = 0, stats_rejected = 0, stats_inserted = 0\<rparr>"

definition K_report :: ustring where "K_report = u ''agentnet:report''"
definition K_schemaErrors :: ustring where "K_schemaErrors = u ''schemaErrors''"

text \<open>
  The compiled validator: applied to an envelope it answers whether the envelope is valid
  and leaves its \<open>errors\<close> property (\<open>None\<close> for \<open>null\<close>). \<open>validateEnvelope\<close> is \<open>None\<close>
  when validation is off or the schema did not load.
\<close>

type_synonym validator = "obj \<Rightarrow> bool \<times> json list option"

definition errors_or_empty :: "json list option \<Rightarrow> json list" where
  "errors_or_empty e = (case e of None \<Rightarrow> [] | Some es \<Rightarrow> es)"

text \<open>\<open>envelope["agentnet:report"].schemaErrors = errs\<close>. The assignment throws when the
  report is missing or \<open>null\<close>, and changes nothing that serialises when the report is not
  an object.\<close>

definition set_schemaErrors :: "json list \<Rightarrow> obj \<Rightarrow> js_error + obj" where
  "set_schemaErrors errs envelope =
     (case obj_get envelope K_report of
        None \<Rightarrow> Inl TypeError
      | Some JNull \<Rightarrow> Inl TypeError
      | Some (JObj r) \<Rightarrow> Inr (obj_set K_report (JObj (obj_set K_schemaErrors (JArr errs) r)) envelope)
      | Some _ \<Rightarrow> Inr envelope)"

datatype page_result = Threw | Stored

text \<open>
  The gate and what follows it up to the counters: the status, the envelope as mutated,
  the counters and the store when the segment ends, and whether it ended by an exception
  (which the page's \<open>catch\<close> receives).
\<close>

definition validate_and_insert ::
  "validator option \<Rightarrow> store \<Rightarrow> nat \<Rightarrow> obj \<Rightarrow> ustring \<Rightarrow> ustring \<Rightarrow> site_stats
     \<Rightarrow> page_result \<times> status \<times> obj \<times> site_stats \<times> store" where
  "validate_and_insert validateEnvelope db nodeId envelope fingerprint harvestedAt stats =
     (let gate =
        (case validateEnvelope of
           None \<Rightarrow> Inr (Ok, envelope, stats)
         | Some v \<Rightarrow>
            (if fst (v envelope) then Inr (Ok, envelope, stats)
             else (case set_schemaErrors (errors_or_empty (snd (v envelope))) envelope of
                     Inl e \<Rightarrow> Inl e
                   | Inr env' \<Rightarrow>
                       Inr (NeedsReview, env',
                            stats\<lparr>stats_schemaErrors := stats_schemaErrors stats
                                     + length (errors_or_empty (snd (v envelope)))\<rparr>))))
      in case gate of
           Inl e \<Rightarrow> (Threw, NeedsReview, envelope, stats, db)
         | Inr (st, env', stats1) \<Rightarrow>
            (case insertCapsule db nodeId env' fingerprint harvestedAt st of
               Inl e \<Rightarrow> (Threw, st, env', stats1, db)
             | Inr db' \<Rightarrow>
                 (let stats2 = stats1\<lparr>stats_capsules := stats_capsules stats1 + 1, stats_pages := stats_pages stats1 + 1\<rparr>;
                      stats3 = (if st = Ok then stats2\<lparr>stats_inserted := stats_inserted stats2 + 1\<rparr>
                                else stats2\<lparr>stats_rejected := stats_rejected stats2 + 1\<rparr>)
                  in (Stored, st, env', stats3, db'))))"

section \<open>Job handler and run manifest (worker.js, the queue worker)\<close>

text \<open>
  One entry of the manifest's error list, and the manifest object \<open>runMeta\<close> that the
  handler builds before it launches the browser.
\<close>

record run_error =
  err_url :: ustring
  err_message :: ustring
  err_fatal :: bool

record run_meta =
  meta_runId :: ustring
  meta_finished :: bool
  meta_nodeId :: "nat option"
  meta_pages :: nat
  meta_capsules :: nat
  meta_inferred :: nat
  meta_errors :: nat
  meta_error_list :: "run_error list"

text \<open>
  What the collaborators do in one execution of the handler: each call either completes
  or throws. \<open>crawlSite\<close> returns its counters and the page errors it appended to the
  manifest, or throws.
\<close>

record job_env =
  launch :: "exn option"
  newContext :: "exn option"
  upsertNode :: "exn + nat"
  crawl :: "exn + (site_stats \<times> run_error list)"
  close_after_crawl :: "exn option"
  write_after_crawl :: "exn option"
  close_in_catch :: "exn option"
  write_in_catch :: "exn option"
  log_in_catch :: "exn option"

text \<open>The effects the handler has on the file system, in order.\<close>

datatype effect = ManifestWrite run_meta bool | LogAppend

datatype job_result = Returned ustring | Rejected exn

definition exn_message :: "exn \<Rightarrow> ustring" where
  "exn_message e = (case e of Exn m \<Rightarrow> m)"

definition initial_meta :: "ustring \<Rightarrow> run_meta" where
  "initial_meta runId = \<lparr>meta_runId = runId, meta_finished = False, meta_nodeId = None,
     meta_pages = 0, meta_capsules = 0, meta_inferred = 0, meta_errors = 0,
     meta_error_list = []\<rparr>"

text \<open>The body of the \<open>try\<close> block: the outcome, the manifest as mutated so far, and the
  effects so far.\<close>

definition try_block :: "job_env \<Rightarrow> run_meta \<Rightarrow> (exn + unit) \<times> run_meta \<times> effect list" where
  "try_block E m0 =
     (case upsertNode E of
        Inl e \<Rightarrow> (Inl e, m0, [])
      | Inr nodeId \<Rightarrow>
         (let m1 = m0\<lparr>meta_nodeId := Some nodeId\<rparr> in
          case crawl E of
            Inl e \<Rightarrow> (Inl e, m1, [])
          | Inr (stats, page_errors) \<Rightarrow>
             (let m2 = m1\<lparr>meta_error_list := meta_error_list m1 @ page_errors\<rparr> in
              case close_after_crawl E of
                Some e \<Rightarrow> (Inl e, m2, [])
              | None \<Rightarrow>
                 (let m3 = m2\<lparr>meta_finished := True, meta_pages := stats_pages stats,
                            meta_capsules := stats_capsules stats,
                            meta_inferred := stats_inferred stats,
                            meta_errors := stats_errors stats\<rparr> in
                  case write_after_crawl E of
                    Some e \<Rightarrow> (Inl e, m3, [ManifestWrite m3 False])
                  | None \<Rightarrow> (Inr (), m3, [ManifestWrite m3 True])))))"

text \<open>The \<open>catch\<close> block: it closes the browser, appends the fatal entry, tries to write
  the manifest (a failure of the write is only logged), appends to the log and re-throws.\<close>

definition catch_block :: "job_env \<Rightarrow> ustring \<Rightarrow> exn \<Rightarrow> run_meta \<Rightarrow> exn \<times> effect list" where
  "catch_block E url e m =
     (case close_in_catch E of
        Some e' \<Rightarrow> (e', [])
      | None \<Rightarrow>
         (let m' = m\<lparr>meta_finished := True,
                     meta_error_list := meta_error_list m
                        @ [\<lparr>err_url = url, err_message = exn_message e, err_fatal = True\<rparr>]\<rparr>;
              w = ManifestWrite m' (write_in_catch E = None)
          in case log_in_catch E of
               Some e' \<Rightarrow> (e', [w])
             | None \<Rightarrow> (e, [w, LogAppend])))"

definition job_handler :: "job_env \<Rightarrow> ustring \<Rightarrow> ustring \<Rightarrow> job_result \<times> effect list" where
  "job_handler E url runId =
     (let runMeta = initial_meta runId in
      case launch E of
        Some e \<Rightarrow> (Rejected e, [])
      | None \<Rightarrow>
         (case newContext E of
            Some e \<Rightarrow> (Rejected e, [])
          | None \<Rightarrow>
             (case try_block E runMeta of
                (Inr _, m, fx) \<Rightarrow> (Returned runId, fx)
              | (Inl e, m, fx) \<Rightarrow>
                  (case catch_block E url e m of (e', fx') \<Rightarrow> (Rejected e', fx @ fx')))))"

fun is_manifest_write :: "effect \<Rightarrow> bool" where
  "is_manifest_write (ManifestWrite m ok) = True"
| "is_manifest_write LogAppend = False"

definition manifest_attempts :: "effect list \<Rightarrow> nat" where
  "manifest_attempts fx = length (filter is_manifest_write fx)"

text \<open>An execution in which the browser cannot be launched; nothing else goes wrong.\<close>

definition launch_fails :: job_env where
  "launch_fails = \<lparr>launch = Some (Exn (u ''browserType.launch: Executable does not exist'')),
     newContext = None, upsertNode = Inr 1, crawl = Inr (zero_stats, []),
     close_after_crawl = None, write_after_crawl = None, close_in_catch = None,
     write_in_catch = None, log_in_catch = None\<rparr>"

section \<open>Extractor (extractor/jsonld.js)\<close>

definition K_graph :: ustring where "K_graph = u ''@graph''"

text \<open>\<open>g && typeof g === "object"\<close>: an object or an array.\<close>

definition is_object_value :: "json \<Rightarrow> bool" where
  "is_object_value g = (case g of JArr xs \<Rightarrow> True | JObj kvs \<Rightarrow> True | _ \<Rightarrow> False)"

fun flattenJsonLd :: "json \<Rightarrow> json list" where
  "flattenJsonLd (JArr xs) = concat (map flattenJsonLd xs)"
| "flattenJsonLd (JObj kvs) =
     JObj kvs # (case obj_get kvs K_graph of
                   Some (JArr gs) \<Rightarrow> filter is_object_value gs
                 | _ \<Rightarrow> [])"
| "flattenJsonLd v = []"

text \<open>\<open>safeJsonParse\<close>: \<open>null\<close> when \<open>JSON.parse\<close> throws.\<close>

definition safeJsonParse :: "platform \<Rightarrow> ustring \<Rightarrow> json" where
  "safeJsonParse P raw = (case json_parse P raw of None \<Rightarrow> JNull | Some v \<Rightarrow> v)"

record provenance =
  sourceUrl :: ustring
  capturedAt :: ustring
  evidenceType :: ustring
  scriptIndex :: nat
  selector :: ustring
  snippetHash :: ustring

record block =
  block_json :: json
  block_provenance :: provenance

record parse_error =
  pe_index :: nat
  pe_message :: ustring

record extraction =
  found :: bool
  blocks :: "block list"
  rawCount :: nat
  parseErrors :: "parse_error list"

definition invalid_json_message :: ustring where
  "invalid_json_message = u ''Invalid JSON (JSON.parse failed)''"

text \<open>
  The body of the \<open>forEach\<close> over the script elements: the blocks and parse errors
  collected so far are extended by what script \<open>i\<close> gives. Only \<open>JSON.parse\<close> runs inside a
  \<open>try\<close>; when the digest throws, the body throws (\<open>None\<close>).
\<close>

definition script_step ::
  "platform \<Rightarrow> ustring \<Rightarrow> ustring \<Rightarrow> bool \<Rightarrow> nat \<times> ustring
     \<Rightarrow> block list \<times> parse_error list \<Rightarrow> (block list \<times> parse_error list) option" where
  "script_step P url cap flattenGraph el acc =
     (let i = fst el; raw = trim (snd el) in
      if raw = [] then Some acc
      else
        (let parsed = safeJsonParse P raw in
         if \<not> truthy parsed
         then Some (fst acc, snd acc @ [\<lparr>pe_index = i, pe_message = invalid_json_message\<rparr>])
         else
           (let normalized = (if flattenGraph then flattenJsonLd parsed else [parsed]) in
            case sha256_hex P raw of
              None \<Rightarrow> None
            | Some snippet \<Rightarrow>
                Some (fst acc @ map (\<lambda>ob. \<lparr>block_json = ob, block_provenance =
                        \<lparr>sourceUrl = url, capturedAt = cap, evidenceType = u ''jsonld-script'',
                         scriptIndex = i, selector = u ''script[type='application/ld+json']'',
                         snippetHash = u ''sha256:'' @ snippet\<rparr>\<rparr>) normalized,
                      snd acc))))"

text \<open>\<open>forEach\<close> with a body that may throw: the first exception ends the loop.\<close>

fun forEach :: "('a \<Rightarrow> 's \<Rightarrow> 's option) \<Rightarrow> 'a list \<Rightarrow> 's \<Rightarrow> 's option" where
  "forEach f [] s = Some s"
| "forEach f (x # xs) s = (case f x s of None \<Rightarrow> None | Some s' \<Rightarrow> forEach f xs s')"

text \<open>
  \<open>opts.capturedAt || new Date().toISOString()\<close> and \<open>opts.flattenGraph !== false\<close>;
  \<open>now\<close> is the clock's reading. The result is \<open>None\<close> when the call throws: the HTML
  parser is called outside any \<open>try\<close>, and so is the loop.
\<close>

definition extractJsonLd ::
  "platform \<Rightarrow> ustring \<Rightarrow> ustring \<Rightarrow> ustring option \<Rightarrow> bool option \<Rightarrow> ustring
     \<Rightarrow> extraction option" where
  "extractJsonLd P html url opt_capturedAt opt_flattenGraph now =
     (let cap = (case opt_capturedAt of None \<Rightarrow> now | Some c \<Rightarrow> if c = [] then now else c);
          flattenGraph = (opt_flattenGraph \<noteq> Some False)
      in case ld_scripts P html of
           None \<Rightarrow> None
         | Some scripts \<Rightarrow>
             (case forEach (script_step P url cap flattenGraph)
                     (zip [0..<length scripts] scripts) ([], []) of
                None \<Rightarrow> None
              | Some acc \<Rightarrow>
                  Some \<lparr>found = (fst acc \<noteq> []), blocks = fst acc, rawCount = length scripts,
                        parseErrors = snd acc\<rparr>))"

text \<open>What one script contributes in the code: it is not blank, \<open>safeJsonParse\<close> gives a
  truthy value, and the value yields these objects.\<close>

definition script_raw_ok :: "platform \<Rightarrow> ustring \<Rightarrow> bool" where
  "script_raw_ok P s = (trim s \<noteq> [] \<and> truthy (safeJsonParse P (trim s)))"

definition script_objects :: "platform \<Rightarrow> bool \<Rightarrow> ustring \<Rightarrow> json list" where
  "script_objects P flattenGraph s =
     (if script_raw_ok P s
      then (if flattenGraph then flattenJsonLd (safeJsonParse P (trim s))
            else [safeJsonParse P (trim s)])
      else [])"

definition script_rejected :: "platform \<Rightarrow> ustring \<Rightarrow> bool" where
  "script_rejected P s = (trim s \<noteq> [] \<and> \<not> truthy (safeJsonParse P (trim s)))"

text \<open>The blocks and the parse errors that one script element gives when the digest
  returns.\<close>

definition script_blocks :: "platform \<Rightarrow> ustring \<Rightarrow> ustring \<Rightarrow> bool \<Rightarrow> nat \<times> ustring \<Rightarrow> block list" where
  "script_blocks P url cap fg el =
     (case sha256_hex P (trim (snd el)) of
        None \<Rightarrow> []
      | Some snippet \<Rightarrow>
          map (\<lambda>ob. \<lparr>block_json = ob, block_provenance =
                 \<lparr>sourceUrl = url, capturedAt = cap, evidenceType = u ''jsonld-script'',
                  scriptIndex = fst el, selector = u ''script[type='application/ld+json']'',
                  snippetHash = u ''sha256:'' @ snippet\<rparr>\<rparr>)
            (script_objects P fg (snd el)))"

definition script_errors :: "platform \<Rightarrow> nat \<times> ustring \<Rightarrow> parse_error list" where
  "script_errors P el =
     (if script_rejected P (snd el) then [\<lparr>pe_index = fst el, pe_message = invalid_json_message\<rparr>]
      else [])"

subsection \<open>The words of the contract\<close>

text \<open>
  The notions of the contract, stated without the functions of the extractor. A script is
  blank when it is white space only. A script fails to parse when it is not blank and
  \<open>JSON.parse\<close> throws on its text. The values \<open>null\<close>, \<open>false\<close>, \<open>0\<close> and the empty
  string are the falsy JSON values. A value holds an object when it is a JSON object, or an
  array one of whose elements holds an object.
\<close>

definition fails_to_parse :: "platform \<Rightarrow> ustring \<Rightarrow> bool" where
  "fails_to_parse P s = (\<not> white_space_only s \<and> json_parse P (trim s) = None)"

definition falsy_value :: "json \<Rightarrow> bool" where
  "falsy_value v = (v = JNull \<or> v = JBool False \<or> v = JNum 0 \<or> v = JStr [])"

definition parses_falsy :: "platform \<Rightarrow> ustring \<Rightarrow> bool" where
  "parses_falsy P s =
     (\<not> white_space_only s
      \<and> (case json_parse P (trim s) of None \<Rightarrow> False | Some v \<Rightarrow> falsy_value v))"

fun holds_object :: "json \<Rightarrow> bool" where
  "holds_object (JObj kvs) = True"
| "holds_object (JArr xs) = (\<exists>x \<in> set xs. holds_object x)"
| "holds_object v = False"

text \<open>A script gives a block: it is not blank and parses to a value that holds an object
  or, when graph flattening is switched off, to any value that is not falsy.\<close>

definition gives_block :: "platform \<Rightarrow> bool \<Rightarrow> ustring \<Rightarrow> bool" where
  "gives_block P flattenGraph s =
     (\<not> white_space_only s
      \<and> (case json_parse P (trim s) of
            None \<Rightarrow> False
          | Some v \<Rightarrow> if flattenGraph then holds_object v else \<not> falsy_value v))"

subsection \<open>Example pages\<close>

text \<open>A platform on which a markup has two scripts: \<open>[]\<close>, which parses to the empty
  array, and a blank one, on whose text \<open>JSON.parse\<close> throws.\<close>

definition empty_array_page :: ustring where
  "empty_array_page = u ''<script type=\"application/ld+json\">[]</script><script type=\"application/ld+json\"> </script>''"

definition empty_array_platform :: platform where
  "empty_array_platform = ref_platform\<lparr>
     json_parse := [u ''[]'' \<mapsto> JArr []],
     ld_scripts := (\<lambda>h. if h = empty_array_page then Some [u ''[]'', u '' ''] else Some [])\<rparr>"

text \<open>A platform on which a markup has three scripts: an object, an unparsable text and a
  blank one.\<close>

definition three_script_page :: ustring where
  "three_script_page = u ''<script type='application/ld+json'>{\"@type\":\"Product\"}</script><script type='application/ld+json'>{bad</script><script type='application/ld+json'> </script>''"

definition three_script_platform :: platform where
  "three_script_platform = ref_platform\<lparr>
     json_parse := [u ''{\"@type\":\"Product\"}'' \<mapsto> JObj [(u ''@type'', JStr (u ''Product''))]],
     ld_scripts := (\<lambda>h. if h = three_script_page
                         then Some [u ''{\"@type\":\"Product\"}'', u ''{bad'', u '' ''] else Some [])\<rparr>"
section \<open>Regular expressions as the engine runs them\<close>

text \<open>
  The patterns of the source are terms of this type. \<open>Cap n r\<close> is the \<open>n\<close>-th capture
  group, \<open>WordB\<close> is \<open>\b\<close>, \<open>Look r\<close> is the lookahead \<open>(?=r)\<close> and \<open>Eol\<close> is \<open>$\<close>.
\<close>

datatype re =
    Eps
  | Atom "nat \<Rightarrow> bool"
  | Seq re re
  | Alt re re
  | Star re
  | Cap nat re
  | WordB
  | Look re
  | Eol

type_synonym caps = "(nat \<times> nat \<times> nat) list"

definition is_word :: "nat \<Rightarrow> bool" where
  "is_word c = ((48 \<le> c \<and> c \<le> 57) \<or> (65 \<le> c \<and> c \<le> 90) \<or> (97 \<le> c \<and> c \<le> 122) \<or> c = 95)"

text \<open>Is there a word character at index \<open>i\<close>; \<open>word_before\<close> looks at the one before.\<close>

definition word_at :: "ustring \<Rightarrow> nat \<Rightarrow> bool" where
  "word_at s i = (i < length s \<and> is_word (s ! i))"

definition word_before :: "ustring \<Rightarrow> nat \<Rightarrow> bool" where
  "word_before s i = (0 < i \<and> word_at s (i - 1))"

text \<open>
  \<open>ms s r (i, c)\<close> lists, in the order in which a backtracking engine tries them, the
  ways in which \<open>r\<close> matches in \<open>s\<close> from index \<open>i\<close> with captures \<open>c\<close>: each is the end
  index with the captures then. Quantifiers are greedy, alternatives are tried from the
  left, and an iteration of a star that consumes nothing is dropped.
\<close>

function ms :: "ustring \<Rightarrow> re \<Rightarrow> nat \<times> caps \<Rightarrow> (nat \<times> caps) list" where
  "ms s Eps st = [st]"
| "ms s (Atom p) st = (if fst st < length s \<and> p (s ! fst st) then [(Suc (fst st), snd st)] else [])"
| "ms s (Seq a b) st = concat (map (ms s b) (ms s a st))"
| "ms s (Alt a b) st = ms s a st @ ms s b st"
| "ms s (Star a) st =
     concat (map (\<lambda>st'. if fst st < fst st' \<and> fst st' \<le> length s then ms s (Star a) st' else [])
                 (ms s a st)) @ [st]"
| "ms s (Cap n a) st = map (\<lambda>st'. (fst st', (n, fst st, fst st') # snd st')) (ms s a st)"
| "ms s WordB st = (if word_before s (fst st) \<noteq> word_at s (fst st) then [st] else [])"
| "ms s (Look a) st = (if ms s a st = [] then [] else [st])"
| "ms s Eol st = (if fst st = length s then [st] else [])"
  by pat_completeness auto
termination
  by (relation "inv_image (measure size <*lex*> measure id)
                  (\<lambda>(s, r, st). (r, length s - fst st))") auto

text \<open>The equation of the star unfolds into itself; it is applied by hand.\<close>

declare ms.simps(5) [simp del]

text \<open>What the star does with one result of its body: it goes on from there when the
  iteration consumed something.\<close>

definition star_next :: "ustring \<Rightarrow> re \<Rightarrow> nat \<times> caps \<Rightarrow> nat \<times> caps \<Rightarrow> (nat \<times> caps) list" where
  "star_next s a st st' = (if fst st < fst st' \<and> fst st' \<le> length s then ms s (Star a) st' else [])"

text \<open>The first match from index \<open>i\<close> on: its start, its end and its captures.\<close>

fun re_search_from :: "ustring \<Rightarrow> re \<Rightarrow> nat \<Rightarrow> nat \<Rightarrow> (nat \<times> nat \<times> caps) option" where
  "re_search_from s r i 0 = (case ms s r (i, []) of [] \<Rightarrow> None | m # _ \<Rightarrow> Some (i, fst m, snd m))"
| "re_search_from s r i (Suc n) =
     (case ms s r (i, []) of [] \<Rightarrow> re_search_from s r (Suc i) n | m # _ \<Rightarrow> Some (i, fst m, snd m))"

text \<open>\<open>s.match(r)\<close> and \<open>r.test(s)\<close> for a pattern without the \<open>g\<close> flag.\<close>

definition re_exec :: "re \<Rightarrow> ustring \<Rightarrow> (nat \<times> nat \<times> caps) option" where
  "re_exec r s = re_search_from s r 0 (length s)"

definition re_test :: "re \<Rightarrow> ustring \<Rightarrow> bool" where
  "re_test r s = (re_exec r s \<noteq> None)"

definition substr :: "ustring \<Rightarrow> nat \<Rightarrow> nat \<Rightarrow> ustring" where
  "substr s i j = take (j - i) (drop i s)"

text \<open>\<open>m[n]\<close>: \<open>None\<close> when the group took no part in the match.\<close>

definition group :: "ustring \<Rightarrow> caps \<Rightarrow> nat \<Rightarrow> ustring option" where
  "group s c n = (case map_of c n of None \<Rightarrow> None | Some (i, j) \<Rightarrow> Some (substr s i j))"

text \<open>\<open>m[n] || null\<close>: an empty capture counts as none.\<close>

definition group_or_null :: "ustring \<Rightarrow> caps \<Rightarrow> nat \<Rightarrow> ustring option" where
  "group_or_null s c n = (case group s c n of None \<Rightarrow> None | Some g \<Rightarrow> if g = [] then None else Some g)"

text \<open>Pattern syntax: \<open>r?\<close>, \<open>r+\<close>, a literal, a literal under the \<open>i\<close> flag (for an ASCII
  letter exactly its two cases match), and the classes \<open>\d\<close>, \<open>\s\<close>, \<open>\w\<close>.\<close>

definition Opt :: "re \<Rightarrow> re" where "Opt r = Alt r Eps"
definition Plus :: "re \<Rightarrow> re" where "Plus r = Seq r (Star r)"

definition ascii_lower :: "nat \<Rightarrow> nat" where
  "ascii_lower c = (if 65 \<le> c \<and> c \<le> 90 then c + 32 else c)"

definition Chr :: "nat \<Rightarrow> re" where "Chr x = Atom (\<lambda>c. c = x)"
definition Chr_ci :: "nat \<Rightarrow> re" where "Chr_ci x = Atom (\<lambda>c. ascii_lower c = ascii_lower x)"

fun seq_list :: "re list \<Rightarrow> re" where
  "seq_list [] = Eps"
| "seq_list [r] = r"
| "seq_list (r # rs) = Seq r (seq_list rs)"

fun alt_list :: "re list \<Rightarrow> re" where
  "alt_list [] = Atom (\<lambda>c. False)"
| "alt_list [r] = r"
| "alt_list (r # rs) = Alt r (alt_list rs)"

definition lit :: "ustring \<Rightarrow> re" where "lit w = seq_list (map Chr w)"
definition lit_ci :: "ustring \<Rightarrow> re" where "lit_ci w = seq_list (map Chr_ci w)"

definition Digit :: re where "Digit = Atom is_digit"
definition Space :: re where "Space = Atom js_space"

section \<open>Price extraction (inferencer/index.js, extractPrice)\<close>

text \<open>The ISO codes and the currency symbols of the pattern: \<open>$\<close>, the euro, pound and yen
  signs, \<open>C$\<close> and \<open>A$\<close>.\<close>

definition iso_codes :: "ustring list" where
  "iso_codes = [u ''USD'', u ''EUR'', u ''GBP'', u ''JPY'', u ''CAD'', u ''AUD'']"

definition symbol_units :: "nat list" where
  "symbol_units = [36, 8364, 163, 165]"

definition Codes :: re where "Codes = alt_list (map lit_ci iso_codes)"

definition Symbol :: re where
  "Symbol = Alt (Atom (\<lambda>c. c \<in> set symbol_units)) (Alt (lit_ci (u ''C$'')) (lit_ci (u ''A$'')))"

text \<open>\<open>[.,]\<close> and the amount \<open>\d{1,3}(?:[.,]\d{3})*(?:[.,]\d{2})?\<close>.\<close>

definition Sep :: re where "Sep = Atom (\<lambda>c. c = 46 \<or> c = 44)"

definition Amount :: re where
  "Amount = seq_list
     [Digit, Opt (Seq Digit (Opt Digit)),
      Star (seq_list [Sep, Digit, Digit, Digit]),
      Opt (seq_list [Sep, Digit, Digit])]"

definition priceRe :: re where
  "priceRe = Alt
     (seq_list [Opt Codes, Star Space, Cap 1 Symbol, Opt Space, Cap 2 Amount, WordB])
     (seq_list [seq_list [WordB, Cap 3 Codes, WordB], Opt Space, Cap 4 Amount, WordB])"

definition toUSDLikeCurrency :: "ustring option \<Rightarrow> ustring option" where
  "toUSDLikeCurrency symb = (case symb of
       None \<Rightarrow> None
     | Some y \<Rightarrow> map_of [([36], u ''USD''), ([8364], u ''EUR''), ([163], u ''GBP''),
                          ([165], u ''JPY''), (u ''C$'', u ''CAD''), (u ''A$'', u ''AUD'')] y)"

text \<open>\<open>amountRaw.replace(/[.,](?=\d{3}\b)/g, "")\<close>: a separator goes when three digits and
  a word boundary follow it.\<close>

definition ThousandsSep :: re where
  "ThousandsSep = Seq Sep (Look (seq_list [Digit, Digit, Digit, WordB]))"

fun strip_thousands :: "ustring \<Rightarrow> nat \<Rightarrow> nat \<Rightarrow> ustring" where
  "strip_thousands s i 0 = []"
| "strip_thousands s i (Suc n) =
     (if ms s ThousandsSep (i, []) = [] then s ! i # strip_thousands s (Suc i) n
      else strip_thousands s (Suc i) n)"

text \<open>\<open>n.toFixed(2)\<close>: the nearest multiple of \<open>1/100\<close>, the larger one on a tie; from
  \<open>10^21\<close> on the number prints as \<open>String(n)\<close> does.\<close>

definition two_digits :: "nat \<Rightarrow> ustring" where
  "two_digits n = [48 + n div 10, 48 + n mod 10]"

definition toFixed2 :: "platform \<Rightarrow> rat \<Rightarrow> ustring" where
  "toFixed2 P x =
     (if 10 ^ 21 \<le> \<bar>x\<bar> then num_to_str P x
      else if x < 0 \<and> \<lfloor>- x * 100 + 1 / 2\<rfloor> \<noteq> 0
      then (let n = nat \<lfloor>- x * 100 + 1 / 2\<rfloor> in [45] @ dec (n div 100) @ [46] @ two_digits (n mod 100))
      else (let n = nat \<lfloor>\<bar>x\<bar> * 100 + 1 / 2\<rfloor> in dec (n div 100) @ [46] @ two_digits (n mod 100)))"

record price =
  price_amount :: ustring
  priceCurrency :: ustring

definition extractPrice :: "platform \<Rightarrow> ustring \<Rightarrow> price option" where
  "extractPrice P text =
     (case re_exec priceRe text of
        None \<Rightarrow> None
      | Some (i, j, c) \<Rightarrow>
         (let symb = group_or_null text c 1;
              amountRaw1 = group_or_null text c 2;
              code = group_or_null text c 3;
              amountRaw2 = group_or_null text c 4;
              amountRaw = (if amountRaw1 \<noteq> None then amountRaw1 else amountRaw2)
          in case amountRaw of
               None \<Rightarrow> None
             | Some raw \<Rightarrow>
                (case str_to_num P (replace_first 44 46 (strip_thousands raw 0 (length raw))) of
                   Fin amount \<Rightarrow>
                     (case (if code \<noteq> None then code else toUSDLikeCurrency symb) of
                        None \<Rightarrow> None
                      | Some cur \<Rightarrow> Some \<lparr>price_amount = toFixed2 P amount, priceCurrency = cur\<rparr>)
                 | _ \<Rightarrow> None)))"

text \<open>
  A currency marker is one of the four symbols, \<open>C$\<close> or \<open>A$\<close>, or an ISO code, the
  letters in either case. A text has a currency marker when it holds one of the symbols or
  an ISO code anywhere; it has a currency-marked amount when a marker is followed,
  directly or after one white-space character, by a digit.
\<close>

definition is_marker :: "ustring \<Rightarrow> bool" where
  "is_marker w = (w \<in> set (map (\<lambda>c. [c]) symbol_units)
      \<or> map ascii_lower w \<in> set (map (map ascii_lower) ([u ''C$'', u ''A$''] @ iso_codes)))"

fun has_currency_marker :: "ustring \<Rightarrow> bool" where
  "has_currency_marker [] = False"
| "has_currency_marker (c # cs) =
     (c \<in> set symbol_units
      \<or> map ascii_lower (take 3 (c # cs)) \<in> set (map (map ascii_lower) iso_codes)
      \<or> has_currency_marker cs)"

definition currency_marked_amount :: "ustring \<Rightarrow> bool" where
  "currency_marked_amount t =
     (\<exists>i \<in> {0..<length t}. \<exists>j \<in> {i<..length t}. \<exists>k \<in> {j..<length t}.
        is_marker (substr t i j) \<and> (k = j \<or> (k = Suc j \<and> js_space (t ! j))) \<and> is_digit (t ! k))"

section \<open>Inference engine: text features (inferencer/index.js)\<close>

text \<open>Bounded repetition \<open>r{n,}\<close> and \<open>r{n,m}\<close>, greedy.\<close>

fun rep_min :: "nat \<Rightarrow> re \<Rightarrow> re" where
  "rep_min 0 r = Star r"
| "rep_min (Suc n) r = Seq r (rep_min n r)"

fun rep_upto :: "nat \<Rightarrow> re \<Rightarrow> re" where
  "rep_upto 0 r = Eps"
| "rep_upto (Suc m) r = Opt (Seq r (rep_upto m r))"

fun rep_range :: "nat \<Rightarrow> nat \<Rightarrow> re \<Rightarrow> re" where
  "rep_range 0 m r = rep_upto m r"
| "rep_range (Suc n) m r = Seq r (rep_range n (m - 1) r)"

text \<open>
  \<open>toLowerCase\<close>. Outside ASCII only the two code units whose lower case is made of ASCII
  letters are modelled (the Kelvin sign and the dotted capital I); the lower case of any
  other letter is again outside ASCII, where no pattern of the source looks.
\<close>

definition lower_unit :: "nat \<Rightarrow> ustring" where
  "lower_unit c = (if 65 \<le> c \<and> c \<le> 90 then [c + 32]
                   else if c = 8490 then [107]
                   else if c = 304 then [105, 775]
                   else [c])"

definition toLowerCase :: "ustring \<Rightarrow> ustring" where
  "toLowerCase s = concat (map lower_unit s)"

text \<open>\<open>s.replace(/p+/g, " ")\<close> for a character class \<open>p\<close>, and \<open>normText\<close>.\<close>

function collapse :: "(nat \<Rightarrow> bool) \<Rightarrow> ustring \<Rightarrow> ustring" where
  "collapse p [] = []"
| "collapse p (c # cs) = (if p c then 32 # collapse p (dropWhile p cs) else c # collapse p cs)"
  by pat_completeness auto
termination
  by (relation "measure (\<lambda>(p, s). length s)") (auto simp: length_dropWhile_le less_Suc_eq_le)

definition normText :: "ustring \<Rightarrow> ustring" where
  "normText s = trim (collapse (\<lambda>c. js_space c \<and> c \<noteq> 13 \<and> c \<noteq> 10) (collapse js_space s))"

text \<open>\<open>t.includes(w)\<close>.\<close>

definition starts_with :: "ustring \<Rightarrow> ustring \<Rightarrow> bool" where
  "starts_with s w = (take (length w) s = w)"

fun str_includes :: "ustring \<Rightarrow> ustring \<Rightarrow> bool" where
  "str_includes [] w = (w = [])"
| "str_includes (c # cs) w = (starts_with (c # cs) w \<or> str_includes cs w)"

text \<open>The number of matches that \<open>s.match(r)\<close> returns for a pattern with the \<open>g\<close> flag:
  the search resumes where the last match ended, one further on after an empty match.\<close>

fun count_matches :: "ustring \<Rightarrow> re \<Rightarrow> nat \<Rightarrow> nat \<Rightarrow> nat" where
  "count_matches s r i 0 = 0"
| "count_matches s r i (Suc n) =
     (if length s < i then 0
      else (case re_search_from s r i (length s - i) of
              None \<Rightarrow> 0
            | Some (a, b, c) \<Rightarrow> Suc (count_matches s r (if b = a then Suc b else b) n)))"

definition indicatorScore :: "ustring \<Rightarrow> ustring list \<Rightarrow> nat" where
  "indicatorScore text indicators =
     (let t = toLowerCase text in
      fold (\<lambda>ind score. score + count_matches t (seq_list [WordB, lit (toLowerCase ind), WordB])
                                     0 (Suc (length t)))
           indicators 0)"

definition productIndicators :: "ustring list" where
  "productIndicators = [u ''add to cart'', u ''buy now'', u ''sku'', u ''specifications'',
     u ''in stock'', u ''price'', u ''was'', u ''sale'', u ''checkout'']"

definition orgIndicators :: "ustring list" where
  "orgIndicators = [u ''about us'', u ''our team'', u ''contact us'', u ''headquarters'',
     u ''mission'', u ''careers'', u ''phone'', u ''address'', u ''hours'']"

definition articleIndicators :: "ustring list" where
  "articleIndicators = [u ''by '', u ''author'', u ''published'', u ''updated'', u ''read more'',
     u ''minutes read'', u ''newsletter'']"

definition T_Thing :: ustring where "T_Thing = u ''agentnet:Thing''"
definition T_Product :: ustring where "T_Product = u ''agentnet:Product''"
definition T_Organization :: ustring where "T_Organization = u ''agentnet:Organization''"
definition T_Article :: ustring where "T_Article = u ''agentnet:Article''"

record type_guess =
  tg_type :: ustring
  tg_confidence :: rat
  tg_prodScore :: nat
  tg_orgScore :: nat
  tg_artScore :: nat

definition clamp01 :: "rat \<Rightarrow> rat" where
  "clamp01 n = max 0 (min 1 n)"

definition detectType :: "ustring \<Rightarrow> type_guess" where
  "detectType text =
     (let prodScore = indicatorScore text productIndicators;
          orgScore = indicatorScore text orgIndicators;
          artScore = indicatorScore text articleIndicators;
          mx = max prodScore (max orgScore artScore);
          ty0 = T_Thing;
          ty1 = (if mx = prodScore \<and> 0 < mx then T_Product else ty0);
          ty2 = (if mx = orgScore \<and> prodScore < mx then T_Organization else ty1);
          ty3 = (if mx = artScore \<and> prodScore < mx \<and> orgScore < mx then T_Article else ty2);
          total = prodScore + orgScore + artScore
      in \<lparr>tg_type = ty3,
          tg_confidence = clamp01 (of_nat mx / of_nat (max 6 (if total = 0 then 1 else total))),
          tg_prodScore = prodScore, tg_orgScore = orgScore, tg_artScore = artScore\<rparr>)"

text \<open>The commerce-intent gate: the loop over the strong phrases returns as soon as two of
  them have been found in the text.\<close>

definition strong_phrases :: "ustring list" where
  "strong_phrases = [u ''add to cart'', u ''checkout'', u ''buy now'', u ''shop now'',
     u ''order now'', u ''shipping'', u ''returns'', u ''size'', u ''color'', u ''quantity'',
     u ''in stock'', u ''out of stock'', u ''variants'', u ''select size'', u ''select color'']"

fun intent_loop :: "ustring \<Rightarrow> ustring list \<Rightarrow> nat \<Rightarrow> bool" where
  "intent_loop t [] hits = False"
| "intent_loop t (token # tokens) hits =
     (let hits' = (if str_includes t token then hits + 1 else hits)
      in if 2 \<le> hits' then True else intent_loop t tokens hits')"

definition hasStrongCommerceIntent :: "ustring \<Rightarrow> bool" where
  "hasStrongCommerceIntent text = intent_loop (toLowerCase text) strong_phrases 0"

section \<open>Inference engine: field extractors (inferencer/index.js)\<close>

definition is_alpha :: "nat \<Rightarrow> bool" where
  "is_alpha c = ((65 \<le> c \<and> c \<le> 90) \<or> (97 \<le> c \<and> c \<le> 122))"

definition is_upper :: "nat \<Rightarrow> bool" where
  "is_upper c = (65 \<le> c \<and> c \<le> 90)"

definition Quote :: re where "Quote = Atom (\<lambda>c. c = 34 \<or> c = 39)"
definition NotGt :: re where "NotGt = Atom (\<lambda>c. c \<noteq> 62)"
definition NotQuote :: re where "NotQuote = Atom (\<lambda>c. c \<noteq> 34 \<and> c \<noteq> 39)"
definition WordC :: re where "WordC = Atom is_word"

text \<open>The first match as a string, and \<open>s.replace(r, "")\<close> for a pattern without \<open>g\<close>.\<close>

definition first_match :: "re \<Rightarrow> ustring \<Rightarrow> ustring option" where
  "first_match r s = (case re_exec r s of None \<Rightarrow> None | Some (a, b, c) \<Rightarrow> Some (substr s a b))"

definition first_group :: "re \<Rightarrow> nat \<Rightarrow> ustring \<Rightarrow> ustring option" where
  "first_group r n s = (case re_exec r s of None \<Rightarrow> None | Some (a, b, c) \<Rightarrow> group s c n)"

definition remove_first_match :: "re \<Rightarrow> ustring \<Rightarrow> ustring" where
  "remove_first_match r s = (case re_exec r s of None \<Rightarrow> s | Some (a, b, c) \<Rightarrow> take a s @ drop b s)"

text \<open>\<open>/\b(?:SKU|Part\s*(?:No\.?|Number))[:#]?\s*([A-Z0-9\-_/]{3,})\b/i\<close>\<close>

definition SkuRe :: re where
  "SkuRe = seq_list
     [WordB,
      Alt (lit_ci (u ''SKU''))
          (seq_list [lit_ci (u ''Part''), Star Space,
                     Alt (Seq (lit_ci (u ''No'')) (Opt (Chr 46))) (lit_ci (u ''Number''))]),
      Opt (Atom (\<lambda>c. c = 58 \<or> c = 35)), Star Space,
      Cap 1 (rep_min 3 (Atom (\<lambda>c. is_alpha c \<or> is_digit c \<or> c = 45 \<or> c = 95 \<or> c = 47))),
      WordB]"

definition extractSKU :: "ustring \<Rightarrow> ustring option" where
  "extractSKU text = first_group SkuRe 1 text"

text \<open>\<open>/\bBrand[:]\s*([A-Za-z0-9&\-\s]{2,60})\b/\<close>, the \<open>itemprop=brand\<close> meta tag and the
  title.\<close>

definition BrandLineRe :: re where
  "BrandLineRe = seq_list
     [WordB, lit (u ''Brand''), Chr 58, Star Space,
      Cap 1 (rep_range 2 60 (Atom (\<lambda>c. is_alpha c \<or> is_digit c \<or> c = 38 \<or> c = 45 \<or> js_space c))),
      WordB]"

definition MetaBrandRe :: re where
  "MetaBrandRe = seq_list
     [lit_ci (u ''<meta''), Plus NotGt, lit_ci (u ''itemprop=''), Opt Quote, lit_ci (u ''brand''),
      Opt Quote, Star NotGt, lit_ci (u ''content=''), Quote, Cap 1 (Plus NotQuote), Quote]"

definition TitleRe :: re where
  "TitleRe = seq_list
     [lit_ci (u ''<title''), Star NotGt, Chr 62, Cap 1 (Plus (Atom (\<lambda>c. c \<noteq> 60))),
      lit_ci (u ''</title>'')]"

fun split_on :: "nat \<Rightarrow> ustring \<Rightarrow> ustring list" where
  "split_on d [] = [[]]"
| "split_on d (c # cs) =
     (if c = d then [] # split_on d cs
      else (case split_on d cs of [] \<Rightarrow> [[c]] | p # ps \<Rightarrow> (c # p) # ps))"

definition extractBrand :: "ustring \<Rightarrow> ustring \<Rightarrow> ustring option" where
  "extractBrand text html =
     (case re_exec BrandLineRe text of
        Some (a, b, c) \<Rightarrow> map_option trim (group text c 1)
      | None \<Rightarrow>
         (case re_exec MetaBrandRe html of
            Some (a, b, c) \<Rightarrow> map_option trim (group html c 1)
          | None \<Rightarrow>
             (case first_group TitleRe 1 html of
                None \<Rightarrow> None
              | Some title \<Rightarrow>
                 (if 124 \<in> set title
                  then (let parts = map trim (split_on 124 title)
                        in if 1 < length parts \<and> parts ! 1 \<noteq> [] then Some (parts ! 1) else None)
                  else None))))"

text \<open>Contacts: the first e-mail address, in lower case, and the first phone number (the
  arrays of all matches are only read at index 0).\<close>

definition EmailRe :: re where
  "EmailRe = seq_list
     [Plus (Atom (\<lambda>c. is_alpha c \<or> is_digit c \<or> c = 46 \<or> c = 95 \<or> c = 37 \<or> c = 43 \<or> c = 45)),
      Chr 64,
      Plus (Atom (\<lambda>c. is_alpha c \<or> is_digit c \<or> c = 46 \<or> c = 45)),
      Chr 46, rep_min 2 (Atom is_alpha)]"

definition PhoneSep :: re where "PhoneSep = Atom (\<lambda>c. js_space c \<or> c = 46 \<or> c = 45)"

definition PhoneRe :: re where
  "PhoneRe = seq_list
     [Opt (seq_list [Opt (Chr 43), rep_range 1 3 Digit, Opt PhoneSep]),
      Alt (seq_list [Chr 40, Digit, Digit, Digit, Chr 41]) (seq_list [Digit, Digit, Digit]),
      Opt PhoneSep, Digit, Digit, Digit, Opt PhoneSep, Digit, Digit, Digit, Digit]"

definition extractContacts :: "ustring \<Rightarrow> ustring option \<times> ustring option" where
  "extractContacts text = (map_option toLowerCase (first_match EmailRe text), first_match PhoneRe text)"

text \<open>The loose street address.\<close>

definition AddrRe :: re where
  "AddrRe = seq_list
     [WordB,
      Cap 1 (seq_list [rep_range 1 6 Digit, Plus Space,
                       Plus (Atom (\<lambda>c. is_alpha c \<or> is_digit c \<or> c = 46 \<or> c = 45 \<or> c = 32))]),
      Star Space, Opt (Chr 44), Star Space,
      Cap 2 (Plus (Atom (\<lambda>c. is_alpha c \<or> c = 46 \<or> c = 45 \<or> c = 32))),
      Chr 44, Star Space,
      Cap 3 (Seq (Atom is_upper) (Atom is_upper)),
      Star Space,
      Cap 4 (seq_list [Digit, Digit, Digit, Digit, Digit,
                       Opt (seq_list [Chr 45, Digit, Digit, Digit, Digit])]),
      WordB]"

definition group_str :: "ustring \<Rightarrow> caps \<Rightarrow> nat \<Rightarrow> ustring" where
  "group_str s c n = (case group s c n of None \<Rightarrow> [] | Some g \<Rightarrow> g)"

definition extractAddress :: "ustring \<Rightarrow> json option" where
  "extractAddress text =
     (case re_exec AddrRe text of
        None \<Rightarrow> None
      | Some (a, b, c) \<Rightarrow> Some (JObj
          [(u ''street'', JStr (trim (group_str text c 1))),
           (u ''addressLocality'', JStr (trim (group_str text c 2))),
           (u ''addressRegion'', JStr (group_str text c 3)),
           (u ''postalCode'', JStr (group_str text c 4))]))"

text \<open>Publication dates: the inline phrase, then the meta tags.\<close>

definition PubLineRe :: re where
  "PubLineRe = seq_list
     [WordB,
      Cap 1 (alt_list [lit_ci (u ''Published''), lit_ci (u ''Posted''), lit_ci (u ''Updated'')]),
      Star Space, Opt (Atom (\<lambda>c. c = 58 \<or> c = 45)), Star Space,
      Cap 2 (Alt (seq_list [rep_min 3 WordC, Plus Space, rep_range 1 2 Digit, Chr 44, Plus Space,
                            Digit, Digit, Digit, Digit])
                 (seq_list [Digit, Digit, Digit, Digit, Chr 45, Digit, Digit, Chr 45, Digit, Digit])),
      WordB]"

definition MetaContentRe :: "re \<Rightarrow> ustring list \<Rightarrow> re" where
  "MetaContentRe attr names = seq_list
     [lit_ci (u ''<meta''), Plus NotGt, attr, Chr 61, Quote, alt_list (map lit_ci names), Quote,
      Star NotGt, lit_ci (u ''content=''), Quote, Cap 1 (Plus NotQuote), Quote]"

definition PropOrName :: re where
  "PropOrName = Alt (lit_ci (u ''property'')) (lit_ci (u ''name''))"

definition extractPublishDates :: "ustring \<Rightarrow> ustring \<Rightarrow> ustring option \<times> ustring option" where
  "extractPublishDates text html =
     ((case re_exec PubLineRe text of
         Some (a, b, c) \<Rightarrow> group text c 2
       | None \<Rightarrow> first_group (MetaContentRe PropOrName
                     [u ''article:published_time'', u ''pubdate'', u ''datePublished'']) 1 html),
      first_group (MetaContentRe PropOrName
                     [u ''article:modified_time'', u ''updated'', u ''dateModified'']) 1 html)"

text \<open>Byline, page title without its \<open>| Site\<close> suffix, and meta description.\<close>

definition BylineRe :: re where
  "BylineRe = seq_list
     [WordB, lit (u ''by''), Plus Space,
      Cap 1 (Seq (Atom is_upper)
                 (rep_range 1 60 (Atom (\<lambda>c. is_alpha c \<or> c = 46 \<or> c = 45 \<or> c = 32)))),
      WordB]"

definition TitleSuffixRe :: re where
  "TitleSuffixRe = seq_list [Star Space, Chr 124, Star Space, Plus (Atom (\<lambda>c. c \<noteq> 124)), Eol]"

definition MetaDescriptionRe :: re where
  "MetaDescriptionRe = MetaContentRe (lit_ci (u ''name'')) [u ''description'']"

section \<open>Inference engine: inferCapsule (inferencer/index.js)\<close>

definition K_priceCurrency :: ustring where "K_priceCurrency = u ''agentnet:priceCurrency''"

text \<open>\<open>Number(x.toFixed(2))\<close> on a confidence between 0 and 1, in exact arithmetic.\<close>

definition round2 :: "rat \<Rightarrow> rat" where
  "round2 x = of_int \<lfloor>x * 100 + 1 / 2\<rfloor> / 100"

definition provenance_entry :: "rat \<Rightarrow> ustring \<Rightarrow> ustring \<Rightarrow> json" where
  "provenance_entry confidence source method = JObj
     [(u ''confidence'', JNum (round2 (clamp01 confidence))),
      (u ''source'', JStr source),
      (u ''method'', JStr method)]"

text \<open>\<open>target["agentnet:inferred"] ||= {}\<close>, then the entry is stored under the key.\<close>

definition addProvenance :: "obj \<Rightarrow> ustring \<Rightarrow> rat \<Rightarrow> ustring \<Rightarrow> ustring \<Rightarrow> obj" where
  "addProvenance target key confidence source method =
     (let target1 = (if truthy_opt (obj_get target K_inferred) then target
                     else obj_set K_inferred (JObj []) target)
      in case obj_get target1 K_inferred of
           Some (JObj m) \<Rightarrow>
             obj_set K_inferred (JObj (obj_set key (provenance_entry confidence source method) m)) target1
         | _ \<Rightarrow> target1)"

definition set_field :: "ustring \<Rightarrow> json \<Rightarrow> rat \<Rightarrow> ustring \<Rightarrow> obj \<Rightarrow> obj" where
  "set_field key v confidence method inferred =
     addProvenance (obj_set key v inferred) key confidence (u ''heuristic'') method"

record infer_options =
  opt_enableLLM :: bool
  opt_overwriteExplicit :: bool
  opt_model :: "ustring option"

text \<open>
  The enrichment service: whether the credential is configured, and what the call with
  a URL, markup, text, seed capsule and model gives: an exception, or the parsed content
  of the response (\<open>JNull\<close> for \<open>null\<close>).
\<close>

record llm_env =
  api_key :: bool
  llm_call :: "ustring \<Rightarrow> ustring \<Rightarrow> ustring \<Rightarrow> obj \<Rightarrow> ustring \<Rightarrow> exn + json"

definition ProductRe :: re where "ProductRe = lit_ci (u ''Product'')"

text \<open>The asserted type as a string, and the three conditions of the price gate.\<close>

definition assertedType :: "obj \<Rightarrow> ustring" where
  "assertedType extracted = (case obj_get extracted K_type of Some (JStr s) \<Rightarrow> s | _ \<Rightarrow> [])"

definition assertedLooksProduct :: "obj \<Rightarrow> bool" where
  "assertedLooksProduct extracted = re_test ProductRe (assertedType extracted)"

definition resolved_type :: "obj \<Rightarrow> type_guess \<Rightarrow> json" where
  "resolved_type extracted typeGuess =
     (if truthy_opt (obj_get extracted K_type) then the (obj_get extracted K_type)
      else if tg_type typeGuess \<noteq> [] then JStr (tg_type typeGuess)
      else JStr T_Thing)"

definition guessedProduct :: "obj \<Rightarrow> type_guess \<Rightarrow> bool" where
  "guessedProduct extracted typeGuess = (resolved_type extracted typeGuess = JStr T_Product)"

definition allowPriceInference :: "obj \<Rightarrow> ustring \<Rightarrow> bool" where
  "allowPriceInference extracted t =
     (assertedLooksProduct extracted
      \<or> (guessedProduct extracted (detectType t) \<and> hasStrongCommerceIntent t))"

text \<open>The stages of the heuristic pass, each on the inferred object so far.\<close>

definition price_fields :: "platform \<Rightarrow> ustring \<Rightarrow> obj \<Rightarrow> obj" where
  "price_fields P t inferred =
     (case extractPrice P t of
        None \<Rightarrow> inferred
      | Some p \<Rightarrow>
         (let i1 = (if price_amount p \<noteq> []
                    then set_field K_price (JStr (price_amount p)) (4 / 5) (u ''price-regex'') inferred
                    else inferred)
          in if priceCurrency p \<noteq> []
             then set_field K_priceCurrency (JStr (priceCurrency p)) (7 / 10) (u ''currency-map'') i1
             else i1))"

definition nonempty_opt :: "ustring option \<Rightarrow> bool" where
  "nonempty_opt x = (case x of None \<Rightarrow> False | Some s \<Rightarrow> s \<noteq> [])"

definition product_fields :: "platform \<Rightarrow> obj \<Rightarrow> ustring \<Rightarrow> ustring \<Rightarrow> obj \<Rightarrow> obj" where
  "product_fields P extracted t html inferred =
     (if guessedProduct extracted (detectType t) \<or> re_test (lit_ci (u ''product'')) t
      then (let i1 = (if allowPriceInference extracted t then price_fields P t inferred else inferred);
                i2 = (if nonempty_opt (extractSKU t)
                      then set_field (u ''agentnet:sku'') (JStr (the (extractSKU t))) (7 / 10)
                             (u ''sku-regex'') i1
                      else i1)
            in if nonempty_opt (extractBrand t html)
               then set_field (u ''agentnet:brand'') (JStr (the (extractBrand t html))) (3 / 4)
                      (u ''brand-heuristic'') i2
               else i2)
      else inferred)"

definition organization_fields :: "ustring \<Rightarrow> obj \<Rightarrow> obj" where
  "organization_fields t inferred =
     (if obj_get inferred K_type = Some (JStr T_Organization)
      then (let i1 = (case fst (extractContacts t) of
                        None \<Rightarrow> inferred
                      | Some e \<Rightarrow> set_field (u ''agentnet:email'') (JStr e) (17 / 20)
                                    (u ''email-regex'') inferred);
                i2 = (case snd (extractContacts t) of
                        None \<Rightarrow> i1
                      | Some ph \<Rightarrow> set_field (u ''agentnet:telephone'') (JStr ph) (4 / 5)
                                     (u ''phone-regex'') i1)
            in case extractAddress t of
                 None \<Rightarrow> i2
               | Some addr \<Rightarrow> set_field (u ''agentnet:address'') addr (7 / 10) (u ''address-regex'') i2)
      else inferred)"

definition article_fields :: "ustring \<Rightarrow> ustring \<Rightarrow> obj \<Rightarrow> obj" where
  "article_fields t html inferred =
     (if obj_get inferred K_type = Some (JStr T_Article)
      then (let dates = extractPublishDates t html;
                i1 = (if nonempty_opt (fst dates)
                      then set_field (u ''agentnet:datePublished'') (JStr (the (fst dates))) (4 / 5)
                             (u ''date-meta'') inferred
                      else inferred);
                i2 = (if nonempty_opt (snd dates)
                      then set_field (u ''agentnet:dateModified'') (JStr (the (snd dates))) (7 / 10)
                             (u ''date-meta'') i1
                      else i1)
            in case re_exec BylineRe t of
                 None \<Rightarrow> i2
               | Some (a, b, c) \<Rightarrow> set_field (u ''agentnet:author'') (JStr (trim (group_str t c 1)))
                                     (13 / 20) (u ''byline-regex'') i2)
      else inferred)"

definition generic_fields :: "obj \<Rightarrow> ustring \<Rightarrow> obj \<Rightarrow> obj" where
  "generic_fields extracted html inferred =
     (let i1 = (if \<not> truthy_opt (obj_get extracted (u ''agentnet:name''))
                   \<and> nonempty_opt (first_group TitleRe 1 html)
                then set_field (u ''agentnet:name'')
                       (JStr (trim (remove_first_match TitleSuffixRe (the (first_group TitleRe 1 html)))))
                       (3 / 5) (u ''title-fallback'') inferred
                else inferred)
      in if \<not> truthy_opt (obj_get extracted (u ''agentnet:description''))
            \<and> nonempty_opt (first_group MetaDescriptionRe 1 html)
         then set_field (u ''agentnet:description'')
                (JStr (trim (the (first_group MetaDescriptionRe 1 html))))
                (13 / 20) (u ''meta-description'') i1
         else i1)"

text \<open>The heuristic pass as a whole.\<close>

definition heuristic_inferred :: "platform \<Rightarrow> obj \<Rightarrow> ustring \<Rightarrow> ustring \<Rightarrow> obj" where
  "heuristic_inferred P extracted t html =
     (let typeGuess = detectType t;
          i0 = [(K_context, JStr DEFAULT_CONTEXT), (K_type, resolved_type extracted typeGuess)];
          i1 = (if \<not> truthy_opt (obj_get extracted K_type) \<and> tg_type typeGuess \<noteq> T_Thing
                then addProvenance i0 K_type (clamp01 (13 / 20 + 3 / 10 * tg_confidence typeGuess))
                       (u ''heuristic'') (u ''type-detection'')
                else i0)
      in generic_fields extracted html
           (article_fields t html
             (organization_fields t
               (product_fields P extracted t html i1))))"

text \<open>
  The optional enrichment. It runs when it is enabled, a model is named and the credential
  is configured. Of the entries of the response it keeps those whose key is none of
  \<open>@context\<close>, \<open>@type\<close>, \<open>agentnet:inferred\<close> and for which both \<open>typeof inferred[k]\<close> and
  \<open>typeof extracted[k]\<close> are \<open>undefined\<close> (so a key that names a member of the prototype
  is dropped as well). An exception of the call is swallowed.
\<close>

definition llm_runs :: "llm_env \<Rightarrow> infer_options \<Rightarrow> bool" where
  "llm_runs E opts = (opt_enableLLM opts \<and> nonempty_opt (opt_model opts) \<and> api_key E)"

definition llmAugmented :: "obj \<Rightarrow> obj \<Rightarrow> json \<Rightarrow> obj" where
  "llmAugmented extracted inferred llmCapsule =
     (if truthy llmCapsule \<and> is_object_value llmCapsule
      then fold (\<lambda>kv acc.
                  if fst kv = K_context \<or> fst kv = K_type \<or> fst kv = K_inferred then acc
                  else if typeof_undefined inferred (fst kv) \<and> typeof_undefined extracted (fst kv)
                  then js_assign (fst kv) (snd kv) acc
                  else acc)
                (own_entries llmCapsule) []
      else [])"

definition llm_additions ::
  "llm_env \<Rightarrow> infer_options \<Rightarrow> ustring \<Rightarrow> ustring \<Rightarrow> ustring \<Rightarrow> obj \<Rightarrow> obj \<Rightarrow> obj" where
  "llm_additions E opts url html t extracted inferred =
     (if llm_runs E opts
      then (case llm_call E url html t (mergeCapsules (JObj extracted) (JObj inferred) False)
                   (the (opt_model opts)) of
              Inl e \<Rightarrow> []
            | Inr llmCapsule \<Rightarrow> llmAugmented extracted inferred llmCapsule)
      else [])"

definition apply_llm :: "obj \<Rightarrow> obj \<Rightarrow> obj" where
  "apply_llm additions inferred =
     fold (\<lambda>kv acc. js_assign (fst kv) (snd kv)
                      (addProvenance acc (fst kv) (11 / 20) (u ''llm'') (u ''openai-summary'')))
          additions inferred"

record inference =
  out_capsule :: obj
  out_inferred :: obj
  out_typeGuess :: type_guess

definition inferCapsule ::
  "platform \<Rightarrow> llm_env \<Rightarrow> ustring \<Rightarrow> ustring \<Rightarrow> ustring \<Rightarrow> json \<Rightarrow> infer_options \<Rightarrow> inference" where
  "inferCapsule P E url html text extractedCapsule opts =
     (let extracted = asObject extractedCapsule;
          t = normText text;
          inferred0 = heuristic_inferred P extracted t html;
          inferred1 = apply_llm (llm_additions E opts url html t extracted inferred0) inferred0;
          capsule0 = mergeCapsules (JObj extracted) (JObj inferred1) (opt_overwriteExplicit opts);
          capsule1 = (if truthy_opt (obj_get capsule0 K_context) then capsule0
                      else obj_set K_context (JStr DEFAULT_CONTEXT) capsule0)
      in \<lparr>out_capsule = capsule1, out_inferred = inferred1, out_typeGuess = detectType t\<rparr>)"

text \<open>The keys of an object, and the two price keys.\<close>

definition obj_keys :: "obj \<Rightarrow> ustring set" where
  "obj_keys ob = fst ` set ob"






section \<open>Properties of the merger\<close>

lemma u_eq_iff: "u a = u b \<longleftrightarrow> a = b"
  unfolding u_def by (simp add: inj_map_eq_map inj_on_def)

lemma u_Nil_iff: "u s = [] \<longleftrightarrow> s = []"
  by (simp add: u_def)

lemma obj_get_set: "obj_get (obj_set k v ob) k' = (if k' = k then Some v else obj_get ob k')"
  by (simp add: obj_get_def obj_set_def update_conv')

lemma trim_empty_iff: "trim s = [] \<longleftrightarrow> white_space_only s"
proof -
  have "trim s = [] \<longleftrightarrow> (\<forall>c \<in> set (dropWhile js_space s). js_space c)"
    by (simp add: trim_def dropWhile_eq_Nil_conv)
  also have "\<dots> \<longleftrightarrow> dropWhile js_space s = []"
    using hd_dropWhile [of js_space s]
    by (cases "dropWhile js_space s") (auto dest: set_dropWhileD)
  also have "\<dots> \<longleftrightarrow> white_space_only s"
    by (simp add: dropWhile_eq_Nil_conv white_space_only_def)
  finally show ?thesis .
qed

lemma obj_get_assign:
  "k' \<noteq> K_proto \<Longrightarrow>
     obj_get (js_assign k v ob) k' = (if k' = k then Some v else obj_get ob k')"
  by (auto simp: js_assign_def obj_get_set)

lemma merge_step_get:
  "k \<noteq> K_proto \<Longrightarrow>
   obj_get (merge_step orig ow (a, b) out) k =
     (if k = a \<and> a \<noteq> K_context \<and> a \<noteq> K_type \<and> a \<noteq> K_inferred
         \<and> (\<not> hasExplicit orig a \<or> isEmptyExplicit orig a \<or> ow)
      then Some b else obj_get out k)"
  by (auto simp: merge_step_def obj_get_assign)

lemma fold_merge_step_get:
  assumes "distinct (map fst ents)" and "k \<noteq> K_proto"
  shows "obj_get (fold (merge_step orig ow) ents out) k =
     (if k \<in> fst ` set ents \<and> k \<noteq> K_context \<and> k \<noteq> K_type \<and> k \<noteq> K_inferred
         \<and> (\<not> hasExplicit orig k \<or> isEmptyExplicit orig k \<or> ow)
      then map_of ents k else obj_get out k)"
  using assms(1)
proof (induction ents arbitrary: out)
  case Nil
  then show ?case by simp
next
  case (Cons kv ents)
  obtain a b where kv: "kv = (a, b)" by (cases kv)
  from Cons.prems have d: "distinct (map fst ents)" and na: "a \<notin> fst ` set ents"
    by (auto simp: kv)
  have "obj_get (fold (merge_step orig ow) (kv # ents) out) k =
        obj_get (fold (merge_step orig ow) ents (merge_step orig ow (a, b) out)) k"
    by (simp add: kv)
  also have "\<dots> =
     (if k \<in> fst ` set ents \<and> k \<noteq> K_context \<and> k \<noteq> K_type \<and> k \<noteq> K_inferred
         \<and> (\<not> hasExplicit orig k \<or> isEmptyExplicit orig k \<or> ow)
      then map_of ents k else obj_get (merge_step orig ow (a, b) out) k)"
    by (rule Cons.IH [OF d])
  also have "\<dots> =
     (if k \<in> fst ` set (kv # ents) \<and> k \<noteq> K_context \<and> k \<noteq> K_type \<and> k \<noteq> K_inferred
         \<and> (\<not> hasExplicit orig k \<or> isEmptyExplicit orig k \<or> ow)
      then map_of (kv # ents) k else obj_get out k)"
    using na assms(2) by (auto simp: kv merge_step_get)
  finally show ?case .
qed

text \<open>The code's test for keeping the asserted value is the specification's "non-empty".\<close>

lemma explicit_test_is_nonempty:
  "(hasExplicit (asObject original) k \<and> \<not> isEmptyExplicit (asObject original) k)
     = asserted_nonempty original k"
proof (cases original)
  case (JObj kvs)
  show ?thesis
  proof (cases "map_of kvs k")
    case None
    then have "k \<notin> fst ` set kvs" by (simp add: map_of_eq_None_iff)
    with None JObj show ?thesis
      by (simp add: hasExplicit_def asserted_nonempty_def asObject_def)
  next
    case (Some v)
    then have "k \<in> fst ` set kvs" by (auto dest: map_of_SomeD intro: rev_image_eqI)
    with Some JObj show ?thesis
      by (cases v)
         (simp_all add: hasExplicit_def isEmptyExplicit_def typeof_undefined_def asserted_nonempty_def
            asObject_def obj_get_def trim_empty_iff)
  qed
qed (simp_all add: hasExplicit_def asserted_nonempty_def asObject_def)

text \<open>
  Merge precedence away from \<open>__proto__\<close>. With \<open>overwriteExplicit = false\<close>, every key of
  the inferred object other than \<open>@context\<close>, \<open>@type\<close>, \<open>agentnet:inferred\<close> and
  \<open>__proto__\<close> is an own property of the merged result: with the asserted value when the
  asserted object has a non-empty value under that key, with the inferred value otherwise.
\<close>

lemma merge_precedence_other_keys:
  assumes "distinct (map fst (asObject inferred))"
    and "k \<in> fst ` set (asObject inferred)"
    and "k \<noteq> K_context" and "k \<noteq> K_type" and "k \<noteq> K_inferred" and "k \<noteq> K_proto"
  shows "obj_get (mergeCapsules asserted inferred False) k =
     (if asserted_nonempty asserted k then map_of (asObject asserted) k
      else map_of (asObject inferred) k)"
proof -
  define orig where "orig = asObject asserted"
  define infd where "infd = asObject inferred"
  have loop: "obj_get (fold (merge_step orig False) infd out) k =
      (if \<not> hasExplicit orig k \<or> isEmptyExplicit orig k then map_of infd k else obj_get out k)"
    for out
    using fold_merge_step_get [of infd k orig False out] assms by (simp add: infd_def)
  have keep: "obj_get (obj_set K_type t (obj_set K_context c orig)) k = obj_get orig k" for t c
    using assms(3,4) by (simp add: obj_get_set)
  have skip: "obj_get (obj_set K_inferred v out) k = obj_get out k" for v out
    using assms(5) by (simp add: obj_get_set)
  have "obj_get (mergeCapsules asserted inferred False) k =
        obj_get (fold (merge_step orig False) infd
          (obj_set K_type
            (or_else (obj_get (obj_set K_context
                 (or_else (obj_get orig K_context) (obj_get infd K_context) (JStr DEFAULT_CONTEXT))
                 orig) K_type) (obj_get infd K_type) (JStr (u ''agentnet:Thing'')))
            (obj_set K_context
              (or_else (obj_get orig K_context) (obj_get infd K_context) (JStr DEFAULT_CONTEXT))
              orig))) k"
    unfolding mergeCapsules_def Let_def orig_def [symmetric] infd_def [symmetric]
    by (simp only: skip if_distrib [of "\<lambda>ob. obj_get ob k"] if_cancel)
  also have "\<dots> = (if \<not> hasExplicit orig k \<or> isEmptyExplicit orig k then map_of infd k
                     else obj_get orig k)"
    by (simp only: loop keep)
  finally show ?thesis
    using explicit_test_is_nonempty [of asserted k]
    by (auto simp: orig_def infd_def obj_get_def)
qed

text \<open>The example of the specification: asserted \<open>{"name": "Acme"}\<close>, inferred
  \<open>{"name": "Other", "email": "x@y.com"}\<close>.\<close>

lemma merge_precedence_example:
  "obj_get (mergeCapsules (JObj [(u ''name'', JStr (u ''Acme''))])
       (JObj [(u ''name'', JStr (u ''Other'')), (u ''email'', JStr (u ''x@y.com''))]) False)
     (u ''name'') = Some (JStr (u ''Acme''))
   \<and> obj_get (mergeCapsules (JObj [(u ''name'', JStr (u ''Acme''))])
       (JObj [(u ''name'', JStr (u ''Other'')), (u ''email'', JStr (u ''x@y.com''))]) False)
     (u ''email'') = Some (JStr (u ''x@y.com''))"
  using merge_precedence_other_keys [of "JObj [(u ''name'', JStr (u ''Other'')), (u ''email'', JStr (u ''x@y.com''))]"
     "u ''name''" "JObj [(u ''name'', JStr (u ''Acme''))]"]
    merge_precedence_other_keys [of "JObj [(u ''name'', JStr (u ''Other'')), (u ''email'', JStr (u ''x@y.com''))]"
     "u ''email''" "JObj [(u ''name'', JStr (u ''Acme''))]"]
  by (simp add: asObject_def u_eq_iff K_context_def K_type_def K_inferred_def K_proto_def
      asserted_nonempty_def white_space_only_def js_space_def u_def)


section \<open>Properties of the tiny-price guardrail\<close>

text \<open>
  Claim C3 (tiny-price guardrail). When the price of the content is a finite number \<open>n\<close>
  with \<open>0 < n < 5\<close>, the guardrail deletes the price key and sets \<open>priceGuardrail\<close> in the
  report, with reason \<open>tiny_price\<close>, the threshold and the observed value. In every other
  case (price absent or \<open>null\<close>, not a finite number, zero, negative, or at least 5) the
  content and the report are as they were.
\<close>

theorem tiny_price_guardrail:
  "(finite_price P content = Some n \<and> 0 < n \<and> n < 5 \<longrightarrow>
      guardTinyPrice P content report =
        (None, JObj (obj_delete K_price (asObject content)),
         obj_set K_priceGuardrail (tiny_price_note n) report)
      \<and> price_of (JObj (obj_delete K_price (asObject content))) = None
      \<and> obj_get (obj_set K_priceGuardrail (tiny_price_note n) report) K_priceGuardrail
          = Some (tiny_price_note n)
      \<and> obj_get (asObject (tiny_price_note n)) (u ''reason'') = Some (JStr (u ''tiny_price'')))
   \<and> ((\<forall>m. finite_price P content = Some m \<longrightarrow> m \<le> 0 \<or> 5 \<le> m) \<longrightarrow>
      snd (guardTinyPrice P content report) = (content, report))"
proof (intro conjI impI)
  assume a: "finite_price P content = Some n \<and> 0 < n \<and> n < 5"
  then show "guardTinyPrice P content report =
        (None, JObj (obj_delete K_price (asObject content)),
         obj_set K_priceGuardrail (tiny_price_note n) report)"
    by (auto simp: finite_price_def guardTinyPrice_def
        split: option.splits json.splits sum.splits jsnum.splits)
next
  show "price_of (JObj (obj_delete K_price (asObject content))) = None"
    by (simp add: price_of_def obj_get_def obj_delete_def delete_conv')
next
  show "obj_get (obj_set K_priceGuardrail (tiny_price_note n) report) K_priceGuardrail
          = Some (tiny_price_note n)"
    by (simp add: obj_get_set)
next
  show "obj_get (asObject (tiny_price_note n)) (u ''reason'') = Some (JStr (u ''tiny_price''))"
    by (simp add: tiny_price_note_def asObject_def obj_get_def u_eq_iff)
next
  assume b: "\<forall>m. finite_price P content = Some m \<longrightarrow> m \<le> 0 \<or> 5 \<le> m"
  then show "snd (guardTinyPrice P content report) = (content, report)"
    by (auto simp: finite_price_def guardTinyPrice_def
        split: option.splits json.splits sum.splits jsnum.splits)
qed

theorem tiny_price_guardrail_witness:
  "guardTinyPrice ref_platform (JObj [(u ''agentnet:price'', JStr (u ''2.50''))]) [] =
     (None, JObj [], [(u ''priceGuardrail'', tiny_price_note (5 / 2))])
   \<and> snd (guardTinyPrice ref_platform (JObj [(u ''agentnet:price'', JStr (u ''7''))]) []) =
     (JObj [(u ''agentnet:price'', JStr (u ''7''))], [])"
  using tiny_price_guardrail [of ref_platform "JObj [(u ''agentnet:price'', JStr (u ''2.50''))]" "5 / 2" "[]"]
    tiny_price_guardrail [of ref_platform "JObj [(u ''agentnet:price'', JStr (u ''7''))]" 0 "[]"]
  by (simp add: finite_price_def price_of_def obj_get_def K_price_def js_Number_def ref_platform_def
     decimal_number_def trim_def u_def js_space_def unsigned_decimal_def is_digit_def digits_val_def
     Let_def obj_delete_def asObject_def obj_set_def K_priceGuardrail_def)

section \<open>Properties of the validation gate\<close>

text \<open>
  Claim C8 (validation gate). When a validator is loaded and rejects an assembled envelope
  (one with a report object), the status is \<open>needs_review\<close>, the violations are attached
  to the report as \<open>schemaErrors\<close>, the schema-error counter grows by their number, and
  \<open>insertCapsule\<close> is called with that envelope and that status: the outcome is the
  outcome of this insert, and on an answering store the row is stored with status
  \<open>needs_review\<close>.
\<close>

theorem validation_gate_needs_review:
  assumes "validateEnvelope = Some v"
    and "\<not> fst (v envelope)"
    and "obj_get envelope K_report = Some (JObj r)"
  shows "let res = validate_and_insert validateEnvelope db nodeId envelope fp harvestedAt stats;
             errs = errors_or_empty (snd (v envelope));
             env' = obj_set K_report (JObj (obj_set K_schemaErrors (JArr errs) r)) envelope
         in fst (snd res) = NeedsReview
          \<and> fst (snd (snd res)) = env'
          \<and> obj_get env' K_report = Some (JObj (obj_set K_schemaErrors (JArr errs) r))
          \<and> stats_schemaErrors (fst (snd (snd (snd res)))) = stats_schemaErrors stats + length errs
          \<and> (fst res = Stored) =
              (\<exists>db'. insertCapsule db nodeId env' fp harvestedAt NeedsReview = Inr db')
          \<and> (answering db \<longrightarrow> fst res = Stored
                \<and> \<lparr>row_node = nodeId, row_fingerprint = fp, row_capsule = env',
                    row_harvested = mysql_datetime harvestedAt, row_status = NeedsReview\<rparr>
                  \<in> set (rows (snd (snd (snd (snd res))))))"
  using assms
  by (auto simp: validate_and_insert_def set_schemaErrors_def insertCapsule_def Let_def
      obj_get_set split: sum.splits)

theorem validation_gate_needs_review_witness:
  "validate_and_insert (Some (\<lambda>e. (False, Some [JStr (u ''must have required property''), JNull])))
      \<lparr>rows = [], answering = True\<rparr> 7 [(K_report, JObj [])] (u ''sha256:00'')
      (u ''2026-01-02T03:04:05.678Z'') zero_stats
   = (Stored, NeedsReview,
      [(K_report, JObj [(K_schemaErrors, JArr [JStr (u ''must have required property''), JNull])])],
      zero_stats\<lparr>stats_schemaErrors := 2, stats_capsules := 1, stats_pages := 1, stats_rejected := 1\<rparr>,
      \<lparr>rows = [\<lparr>row_node = 7, row_fingerprint = u ''sha256:00'',
          row_capsule = [(K_report, JObj [(K_schemaErrors,
             JArr [JStr (u ''must have required property''), JNull])])],
          row_harvested = u ''2026-01-02 03:04:05'', row_status = NeedsReview\<rparr>],
        answering = True\<rparr>)"
  using validation_gate_needs_review [of
      "Some (\<lambda>e. (False, Some [JStr (u ''must have required property''), JNull]))"
      "\<lambda>e. (False, Some [JStr (u ''must have required property''), JNull])"
      "[(K_report, JObj [])]" "[]" "\<lparr>rows = [], answering = True\<rparr>" 7 "u ''sha256:00''"
      "u ''2026-01-02T03:04:05.678Z''" zero_stats]
  by (simp add: validate_and_insert_def set_schemaErrors_def insertCapsule_def Let_def
      obj_get_def obj_set_def errors_or_empty_def zero_stats_def mysql_datetime_def u_def)

section \<open>Properties of the job handler\<close>

text \<open>
  Claim C9 (manifest on every exit path). The handler launches the browser and creates
  its context before the \<open>try\<close> block. An execution in which the launch throws is
  rejected with that exception and has written nothing: no manifest write was attempted.
\<close>

theorem job_launch_failure_no_manifest:
  "job_handler launch_fails (u ''https://example.com/'') (u ''run_1'') =
     (Rejected (Exn (u ''browserType.launch: Executable does not exist'')), [])
   \<and> manifest_attempts (snd (job_handler launch_fails (u ''https://example.com/'') (u ''run_1''))) = 0"
  by (simp add: job_handler_def launch_fails_def manifest_attempts_def)

text \<open>
  Once the browser and its context exist, and closing the browser in the \<open>catch\<close> block
  does not throw, every execution attempts a manifest write; a rejected execution's
  last attempt carries the fatal entry.
\<close>

lemma job_manifest_after_setup:
  assumes "launch E = None" and "newContext E = None" and "close_in_catch E = None"
  shows "1 \<le> manifest_attempts (snd (job_handler E url runId))"
  using assms
  by (auto simp: job_handler_def try_block_def catch_block_def manifest_attempts_def Let_def
      split: sum.splits option.splits prod.splits)

section \<open>Properties of the extractor\<close>

lemma script_step_eq:
  assumes "sha256_hex P (trim (snd el)) \<noteq> None"
  shows "script_step P url cap fg el acc =
     Some (fst acc @ script_blocks P url cap fg el, snd acc @ script_errors P el)"
  using assms
  by (cases acc)
     (auto simp: script_step_def script_blocks_def script_errors_def script_objects_def
        script_raw_ok_def script_rejected_def Let_def)

lemma forEach_script_step:
  assumes "\<forall>el \<in> set els. sha256_hex P (trim (snd el)) \<noteq> None"
  shows "forEach (script_step P url cap fg) els acc =
     Some (fst acc @ concat (map (script_blocks P url cap fg) els),
           snd acc @ concat (map (script_errors P) els))"
  using assms by (induction els arbitrary: acc) (simp_all add: script_step_eq)

lemma zip_upt_nth: "zip [0..<length xs] xs = map (\<lambda>i. (i, xs ! i)) [0..<length xs]"
  by (rule nth_equalityI) simp_all

lemma concat_map_if: "concat (map (\<lambda>i. if p i then [e i] else []) js) = map e (filter p js)"
  by (induction js) simp_all

text \<open>The tests of the code are the notions of the contract.\<close>

lemma truthy_iff: "truthy v \<longleftrightarrow> \<not> falsy_value v"
  by (cases v) (auto simp: falsy_value_def)

lemma flatten_nonempty_iff: "flattenJsonLd v \<noteq> [] \<longleftrightarrow> holds_object v"
  by (induction v rule: flattenJsonLd.induct) auto

lemma holds_object_truthy: "holds_object v \<Longrightarrow> truthy v"
  by (cases v) auto

lemma script_rejected_iff:
  "script_rejected P s \<longleftrightarrow> fails_to_parse P s \<or> parses_falsy P s"
  by (auto simp: script_rejected_def fails_to_parse_def parses_falsy_def safeJsonParse_def
      trim_empty_iff truthy_iff falsy_value_def split: option.splits)

lemma script_objects_iff: "script_objects P fg s \<noteq> [] \<longleftrightarrow> gives_block P fg s"
proof (cases "json_parse P (trim s)")
  case None
  then show ?thesis
    by (simp add: script_objects_def script_raw_ok_def gives_block_def safeJsonParse_def)
next
  case (Some v)
  then show ?thesis
    using holds_object_truthy [of v]
    by (auto simp: script_objects_def script_raw_ok_def gives_block_def safeJsonParse_def
        trim_empty_iff flatten_nonempty_iff truthy_iff)
qed

lemma gives_block_not_rejected: "gives_block P fg s \<Longrightarrow> \<not> fails_to_parse P s \<and> \<not> parses_falsy P s"
  using holds_object_truthy
  by (auto simp: gives_block_def fails_to_parse_def parses_falsy_def truthy_iff
      split: option.splits if_splits)

lemma errors_form:
  "concat (map (script_errors P) (zip [0..<length S] S))
     = map (\<lambda>i. \<lparr>pe_index = i, pe_message = invalid_json_message\<rparr>)
         (filter (\<lambda>i. fails_to_parse P (S ! i) \<or> parses_falsy P (S ! i)) [0..<length S])"
  by (simp add: zip_upt_nth comp_def script_errors_def concat_map_if script_rejected_iff)

lemma block_index:
  assumes "b \<in> set (concat (map (script_blocks P url cap fg) (zip [0..<length S] S)))"
  shows "scriptIndex (block_provenance b) < length S
       \<and> gives_block P fg (S ! scriptIndex (block_provenance b))"
proof -
  from assms obtain i where i: "i < length S" and b: "b \<in> set (script_blocks P url cap fg (i, S ! i))"
    by (auto simp: zip_upt_nth)
  from b have "scriptIndex (block_provenance b) = i" "script_objects P fg (S ! i) \<noteq> []"
    by (auto simp: script_blocks_def split: option.splits)
  then show ?thesis using i by (simp add: script_objects_iff)
qed

lemma block_of_script:
  assumes "i < length S" and "gives_block P fg (S ! i)" and "sha256_hex P (trim (S ! i)) \<noteq> None"
  shows "\<exists>b \<in> set (concat (map (script_blocks P url cap fg) (zip [0..<length S] S))).
           scriptIndex (block_provenance b) = i"
proof -
  from assms(2) obtain ob obs where obs: "script_objects P fg (S ! i) = ob # obs"
    by (cases "script_objects P fg (S ! i)") (simp_all add: script_objects_iff [symmetric])
  from assms(3) obtain h where h: "sha256_hex P (trim (S ! i)) = Some h" by auto
  define b where "b = hd (script_blocks P url cap fg (i, S ! i))"
  have "b \<in> set (script_blocks P url cap fg (i, S ! i))" "scriptIndex (block_provenance b) = i"
    by (simp_all add: b_def script_blocks_def obs h)
  with assms(1) show ?thesis
    by (auto simp: zip_upt_nth intro!: bexI [of _ b] bexI [of _ i])
qed

lemma blocks_empty_iff:
  assumes "\<forall>s \<in> set S. sha256_hex P (trim s) \<noteq> None"
  shows "concat (map (script_blocks P url cap fg) (zip [0..<length S] S)) \<noteq> []
         \<longleftrightarrow> (\<exists>s \<in> set S. gives_block P fg s)"
proof
  assume "concat (map (script_blocks P url cap fg) (zip [0..<length S] S)) \<noteq> []"
  then obtain b where "b \<in> set (concat (map (script_blocks P url cap fg) (zip [0..<length S] S)))"
    by (cases "concat (map (script_blocks P url cap fg) (zip [0..<length S] S))") auto
  from block_index [OF this] show "\<exists>s \<in> set S. gives_block P fg s"
    by (auto intro: bexI [of _ "S ! scriptIndex (block_provenance b)"])
next
  assume "\<exists>s \<in> set S. gives_block P fg s"
  then obtain i where "i < length S" "gives_block P fg (S ! i)"
    by (auto simp: in_set_conv_nth)
  moreover from this assms have "sha256_hex P (trim (S ! i)) \<noteq> None" by simp
  ultimately obtain b where
    "b \<in> set (concat (map (script_blocks P url cap fg) (zip [0..<length S] S)))"
    using block_of_script [of i S P fg url cap] by blast
  then show "concat (map (script_blocks P url cap fg) (zip [0..<length S] S)) \<noteq> []"
    by (metis empty_iff empty_set)
qed


lemma script_step_None_iff:
  "script_step P url cap fg el acc = None
     \<longleftrightarrow> script_raw_ok P (snd el) \<and> sha256_hex P (trim (snd el)) = None"
  by (auto simp: script_step_def script_raw_ok_def Let_def split: option.splits)

lemma forEach_None_iff:
  "forEach (script_step P url cap fg) els acc = None
     \<longleftrightarrow> (\<exists>el \<in> set els. script_raw_ok P (snd el) \<and> sha256_hex P (trim (snd el)) = None)"
proof (induction els arbitrary: acc)
  case Nil
  then show ?case by simp
next
  case (Cons el els)
  show ?case
  proof (cases "script_step P url cap fg el acc")
    case None
    then show ?thesis using script_step_None_iff [of P url cap fg el acc] by simp
  next
    case (Some acc')
    then have "\<not> (script_raw_ok P (snd el) \<and> sha256_hex P (trim (snd el)) = None)"
      using script_step_None_iff [of P url cap fg el acc] by simp
    with Some Cons.IH [of acc'] show ?thesis by auto
  qed
qed

text \<open>
  When the extractor throws: the HTML parser throws, or the digest throws on a script
  that is not blank and parsed to a truthy value. A script on which \<open>JSON.parse\<close> throws
  never makes it throw.
\<close>

lemma extractJsonLd_throws_iff:
  "extractJsonLd P html url opt_capturedAt opt_flattenGraph now = None
     \<longleftrightarrow> (case ld_scripts P html of
            None \<Rightarrow> True
          | Some S \<Rightarrow> \<exists>s \<in> set S. script_raw_ok P s \<and> sha256_hex P (trim s) = None)"
proof (cases "ld_scripts P html")
  case None
  then show ?thesis by (simp add: extractJsonLd_def)
next
  case (Some S)
  define fg where "fg = (opt_flattenGraph \<noteq> Some False)"
  define cap where "cap = (case opt_capturedAt of None \<Rightarrow> now | Some c \<Rightarrow> if c = [] then now else c)"
  define loop where "loop = forEach (script_step P url cap fg) (zip [0..<length S] S) ([], [])"
  have "(\<exists>el \<in> set (zip [0..<length S] S). script_raw_ok P (snd el) \<and> sha256_hex P (trim (snd el)) = None)
      \<longleftrightarrow> (\<exists>s \<in> set S. script_raw_ok P s \<and> sha256_hex P (trim s) = None)"
    by (simp add: zip_upt_nth) (metis atLeastLessThan_iff zero_le in_set_conv_nth)
  then have key: "loop = None \<longleftrightarrow> (\<exists>s \<in> set S. script_raw_ok P s \<and> sha256_hex P (trim s) = None)"
    unfolding loop_def by (simp only: forEach_None_iff)
  have "extractJsonLd P html url opt_capturedAt opt_flattenGraph now =
      (case loop of None \<Rightarrow> None
       | Some acc \<Rightarrow> Some \<lparr>found = (fst acc \<noteq> []), blocks = fst acc, rawCount = length S,
                           parseErrors = snd acc\<rparr>)"
    by (simp add: extractJsonLd_def Let_def Some loop_def cap_def fg_def)
  then have "extractJsonLd P html url opt_capturedAt opt_flattenGraph now = None \<longleftrightarrow> loop = None"
    by (simp split: option.splits)
  with key Some show ?thesis by simp
qed

text \<open>
  Claim C6 (extractor contract), as the code has it. Let the HTML parser return the
  scripts \<open>S\<close> of the markup and let the digest return on each of them. Then the extractor
  returns a result, whatever \<open>JSON.parse\<close> does on the scripts. \<open>rawCount\<close> is the number of
  scripts. \<open>found\<close> says that the block list is not empty, and it holds iff some script
  gives a block: the script is not blank and parses to a value that holds an object (to
  any value that is not falsy when graph flattening is off). The parse errors are, in
  script order, one record with the script's index and the fixed message for each script
  that fails to parse or parses to a falsy value, and no others. A script that fails to
  parse has its record and no block. Every block carries the index of a script that gives
  a block, and every script that gives a block has a block with its index.
\<close>

theorem extractJsonLd_contract:
  assumes "ld_scripts P html = Some S"
    and "\<forall>s \<in> set S. sha256_hex P (trim s) \<noteq> None"
  shows "\<exists>R. extractJsonLd P html url opt_capturedAt opt_flattenGraph now = Some R
    \<and> rawCount R = length S
    \<and> found R = (blocks R \<noteq> [])
    \<and> found R = (\<exists>s \<in> set S. gives_block P (opt_flattenGraph \<noteq> Some False) s)
    \<and> parseErrors R = map (\<lambda>i. \<lparr>pe_index = i, pe_message = invalid_json_message\<rparr>)
                         (filter (\<lambda>i. fails_to_parse P (S ! i) \<or> parses_falsy P (S ! i))
                            [0..<length S])
    \<and> (\<forall>i < length S. fails_to_parse P (S ! i) \<longrightarrow>
           \<lparr>pe_index = i, pe_message = invalid_json_message\<rparr> \<in> set (parseErrors R)
           \<and> (\<forall>b \<in> set (blocks R). scriptIndex (block_provenance b) \<noteq> i))
    \<and> (\<forall>b \<in> set (blocks R). scriptIndex (block_provenance b) < length S
           \<and> gives_block P (opt_flattenGraph \<noteq> Some False) (S ! scriptIndex (block_provenance b)))
    \<and> (\<forall>i < length S. gives_block P (opt_flattenGraph \<noteq> Some False) (S ! i) \<longrightarrow>
           (\<exists>b \<in> set (blocks R). scriptIndex (block_provenance b) = i))"
proof -
  define fg where "fg = (opt_flattenGraph \<noteq> Some False)"
  define cap where "cap = (case opt_capturedAt of None \<Rightarrow> now | Some c \<Rightarrow> if c = [] then now else c)"
  define B where "B = concat (map (script_blocks P url cap fg) (zip [0..<length S] S))"
  define E where "E = map (\<lambda>i. \<lparr>pe_index = i, pe_message = invalid_json_message\<rparr>)
      (filter (\<lambda>i. fails_to_parse P (S ! i) \<or> parses_falsy P (S ! i)) [0..<length S])"
  define R where "R = \<lparr>found = (B \<noteq> []), blocks = B, rawCount = length S, parseErrors = E\<rparr>"
  have hash: "\<forall>el \<in> set (zip [0..<length S] S). sha256_hex P (trim (snd el)) \<noteq> None"
    using assms(2) by (auto dest: set_zip_rightD)
  have ret: "extractJsonLd P html url opt_capturedAt opt_flattenGraph now = Some R"
    unfolding extractJsonLd_def Let_def
    by (simp add: assms(1) forEach_script_step [OF hash] errors_form R_def B_def E_def fg_def cap_def)
  have fnd: "(B \<noteq> []) = (\<exists>s \<in> set S. gives_block P fg s)"
    unfolding B_def by (rule blocks_empty_iff [OF assms(2)])
  have idx: "scriptIndex (block_provenance b) < length S
          \<and> gives_block P fg (S ! scriptIndex (block_provenance b))" if "b \<in> set B" for b
    using block_index [of b P url cap fg S] that by (simp add: B_def)
  have rec: "\<lparr>pe_index = i, pe_message = invalid_json_message\<rparr> \<in> set E
          \<and> (\<forall>b \<in> set B. scriptIndex (block_provenance b) \<noteq> i)"
    if "i < length S" "fails_to_parse P (S ! i)" for i
  proof
    from that show "\<lparr>pe_index = i, pe_message = invalid_json_message\<rparr> \<in> set E"
      by (simp add: E_def)
    from that(2) idx gives_block_not_rejected [of P fg "S ! i"]
    show "\<forall>b \<in> set B. scriptIndex (block_provenance b) \<noteq> i"
      by blast
  qed
  have giv: "\<exists>b \<in> set B. scriptIndex (block_provenance b) = i"
    if "i < length S" "gives_block P fg (S ! i)" for i
    unfolding B_def using that assms(2) by (intro block_of_script) simp_all
  have "rawCount R = length S
    \<and> found R = (blocks R \<noteq> [])
    \<and> found R = (\<exists>s \<in> set S. gives_block P fg s)
    \<and> parseErrors R = E
    \<and> (\<forall>i < length S. fails_to_parse P (S ! i) \<longrightarrow>
           \<lparr>pe_index = i, pe_message = invalid_json_message\<rparr> \<in> set (parseErrors R)
           \<and> (\<forall>b \<in> set (blocks R). scriptIndex (block_provenance b) \<noteq> i))
    \<and> (\<forall>b \<in> set (blocks R). scriptIndex (block_provenance b) < length S
           \<and> gives_block P fg (S ! scriptIndex (block_provenance b)))
    \<and> (\<forall>i < length S. gives_block P fg (S ! i) \<longrightarrow>
           (\<exists>b \<in> set (blocks R). scriptIndex (block_provenance b) = i))"
    using fnd idx rec giv by (simp add: R_def)
  with ret show ?thesis
    unfolding fg_def E_def by blast
qed


lemma three_scripts:
  "ld_scripts three_script_platform three_script_page
     = Some [u ''{\"@type\":\"Product\"}'', u ''{bad'', u '' '']"
  by (simp add: three_script_platform_def)

lemma three_hash: "sha256_hex three_script_platform s \<noteq> None"
  by (simp add: three_script_platform_def ref_platform_def)

lemma three_trim:
  "trim (u ''{\"@type\":\"Product\"}'') = u ''{\"@type\":\"Product\"}''"
  "trim (u ''{bad'') = u ''{bad''"
  "trim (u '' '') = []"
  by (simp_all add: trim_def u_def js_space_def)

lemma three_blank:
  "\<not> white_space_only (u ''{\"@type\":\"Product\"}'')"
  "\<not> white_space_only (u ''{bad'')"
  "white_space_only (u '' '')"
  by (simp_all add: white_space_only_def u_def js_space_def)

lemma three_parse:
  "json_parse three_script_platform (u ''{\"@type\":\"Product\"}'')
     = Some (JObj [(u ''@type'', JStr (u ''Product''))])"
  "json_parse three_script_platform (u ''{bad'') = None"
  by (simp_all add: three_script_platform_def u_eq_iff)

lemma three_gives:
  "gives_block three_script_platform True (u ''{\"@type\":\"Product\"}'')"
  "\<not> gives_block three_script_platform True (u ''{bad'')"
  "\<not> gives_block three_script_platform True (u '' '')"
  by (simp_all add: gives_block_def three_blank three_trim three_parse)

lemma three_recorded:
  "\<not> fails_to_parse three_script_platform (u ''{\"@type\":\"Product\"}'')"
  "\<not> parses_falsy three_script_platform (u ''{\"@type\":\"Product\"}'')"
  "fails_to_parse three_script_platform (u ''{bad'')"
  "\<not> fails_to_parse three_script_platform (u '' '')"
  "\<not> parses_falsy three_script_platform (u '' '')"
  by (simp_all add: fails_to_parse_def parses_falsy_def falsy_value_def three_blank three_trim
      three_parse)

text \<open>The contract on a markup with an object script, an unparsable script and a blank one.\<close>

theorem extractJsonLd_contract_witness:
  "\<exists>R. extractJsonLd three_script_platform three_script_page (u ''https://example.com/'')
            (Some (u ''2026-01-02T03:04:05.678Z'')) None (u ''now'') = Some R
     \<and> found R
     \<and> rawCount R = 3
     \<and> parseErrors R = [\<lparr>pe_index = 1, pe_message = invalid_json_message\<rparr>]"
  using extractJsonLd_contract [of three_script_platform three_script_page
      "[u ''{\"@type\":\"Product\"}'', u ''{bad'', u '' '']"
      "u ''https://example.com/''" "Some (u ''2026-01-02T03:04:05.678Z'')" None "u ''now''"]
  by (auto simp: three_scripts three_hash three_gives three_recorded)

lemma empty_array_facts:
  "ld_scripts empty_array_platform empty_array_page = Some [u ''[]'', u '' '']"
  "trim (u ''[]'') = u ''[]''"
  "trim (u '' '') = []"
  "json_parse empty_array_platform (u ''[]'') = Some (JArr [])"
  "json_parse empty_array_platform [] = None"
  "sha256_hex empty_array_platform (u ''[]'') = Some (u ''[]'')"
  by (simp_all add: empty_array_platform_def ref_platform_def trim_def u_def js_space_def)

text \<open>
  The claim as stated fails on a markup with the two scripts \<open>[]\<close> and a blank: the
  first script parses and \<open>found\<close> is false; \<open>JSON.parse\<close> throws on the text of the second
  and no parse error is recorded.
\<close>

theorem extractJsonLd_found_counterexample:
  "ld_scripts empty_array_platform empty_array_page = Some [u ''[]'', u '' '']
   \<and> json_parse empty_array_platform (trim (u ''[]'')) = Some (JArr [])
   \<and> json_parse empty_array_platform (trim (u '' '')) = None
   \<and> extractJsonLd empty_array_platform empty_array_page (u ''https://example.com/'') None None
        (u ''now'')
      = Some \<lparr>found = False, blocks = [], rawCount = 2, parseErrors = []\<rparr>"
  by (simp add: extractJsonLd_def empty_array_facts Let_def script_step_def safeJsonParse_def)

text \<open>With graph flattening switched off the same first script gives a block: the parsed
  value itself.\<close>

lemma extractJsonLd_flattenGraph_off_example:
  "map_option found (extractJsonLd empty_array_platform empty_array_page (u ''https://example.com/'')
       None (Some False) (u ''now'')) = Some True
   \<and> map_option (map block_json \<circ> blocks)
       (extractJsonLd empty_array_platform empty_array_page (u ''https://example.com/'')
          None (Some False) (u ''now'')) = Some [JArr []]"
  by (simp add: extractJsonLd_def empty_array_facts Let_def script_step_def safeJsonParse_def
      u_Nil_iff)

section \<open>Properties of the matcher and of price extraction\<close>

text \<open>Rules that evaluate the matcher on a given text.\<close>

lemma ms_Star_eval: "ms s (Star a) st = concat (map (star_next s a st) (ms s a st)) @ [st]"
  by (subst ms.simps(5)) (simp add: star_next_def [abs_def])

lemmas regex_eval = ms_Star_eval star_next_def re_exec_def re_test_def Opt_def Plus_def Chr_def
  Chr_ci_def lit_def lit_ci_def Digit_def Space_def is_digit_def js_space_def word_at_def
  word_before_def is_word_def ascii_lower_def group_or_null_def group_def substr_def

lemmas price_eval = extractPrice_def priceRe_def Codes_def Symbol_def Sep_def Amount_def
  iso_codes_def symbol_units_def toUSDLikeCurrency_def ThousandsSep_def toFixed2_def
  two_digits_def

lemmas ref_eval = ref_platform_def decimal_number_def trim_def unsigned_decimal_def
  digits_val_def dec.simps Let_def u_def

lemma floor_rat_numeral_div:
  "\<lfloor>(numeral a :: rat) / numeral b\<rfloor> = (numeral a :: int) div numeral b"
  using floor_divide_of_int_eq [of "numeral a" "numeral b", where ?'a = rat] by simp

lemma substr_Nil: "substr s i i = []"
  by (simp add: substr_def)

lemma substr_Cons: "i < j \<Longrightarrow> i < length s \<Longrightarrow> substr s i j = s ! i # substr s (Suc i) j"
proof -
  assume a: "i < j" "i < length s"
  then have "j - i = Suc (j - Suc i)" by simp
  moreover from a have "drop i s = s ! i # drop (Suc i) s" by (simp add: Cons_nth_drop_Suc)
  ultimately show ?thesis by (simp add: substr_def)
qed

lemma substr1: "Suc i \<le> length s \<Longrightarrow> substr s i (Suc i) = [s ! i]"
  by (simp add: substr_Cons substr_Nil)

lemma substr2: "Suc (Suc i) \<le> length s \<Longrightarrow> substr s i (Suc (Suc i)) = [s ! i, s ! Suc i]"
  by (simp add: substr_Cons substr_Nil)

lemma substr3: "Suc (Suc (Suc i)) \<le> length s \<Longrightarrow>
    substr s i (Suc (Suc (Suc i))) = [s ! i, s ! Suc i, s ! Suc (Suc i)]"
  by (simp add: substr_Cons substr_Nil)

lemma ms_seq_list_Cons:
  "set (ms s (seq_list (r # rs)) st) = (\<Union>y \<in> set (ms s r st). set (ms s (seq_list rs) y))"
  by (cases rs) auto

lemma ms_alt_list:
  "y \<in> set (ms s (alt_list rs) st) \<Longrightarrow> \<exists>r \<in> set rs. y \<in> set (ms s r st)"
  by (induction rs rule: alt_list.induct) auto

lemma ms_Chr_ci:
  "y \<in> set (ms s (Chr_ci x) st) \<longleftrightarrow>
     fst st < length s \<and> ascii_lower (s ! fst st) = ascii_lower x \<and> y = (Suc (fst st), snd st)"
  by (auto simp: Chr_ci_def)

lemma ms_lit_ci:
  assumes "y \<in> set (ms s (lit_ci w) st)"
  shows "fst y = fst st + length w \<and> snd y = snd st \<and> (w \<noteq> [] \<longrightarrow> fst y \<le> length s)
       \<and> map ascii_lower (substr s (fst st) (fst y)) = map ascii_lower w"
  using assms
proof (induction w arbitrary: st)
  case Nil
  then show ?case by (simp add: lit_ci_def substr_Nil)
next
  case (Cons x w)
  from Cons.prems obtain z where z: "z \<in> set (ms s (Chr_ci x) st)"
    and y: "y \<in> set (ms s (lit_ci w) z)"
    by (auto simp: lit_ci_def ms_seq_list_Cons)
  from z have z': "fst st < length s" "ascii_lower (s ! fst st) = ascii_lower x"
      "z = (Suc (fst st), snd st)"
    by (simp_all add: ms_Chr_ci)
  from Cons.IH [OF y] z' have ih: "fst y = Suc (fst st) + length w" "snd y = snd st"
      "w \<noteq> [] \<longrightarrow> fst y \<le> length s"
      "map ascii_lower (substr s (Suc (fst st)) (fst y)) = map ascii_lower w"
    by auto
  have "substr s (fst st) (fst y) = s ! fst st # substr s (Suc (fst st)) (fst y)"
    using ih(1) z'(1) by (intro substr_Cons) simp_all
  moreover have "fst y \<le> length s"
    using ih(1,3) z'(1) by (cases "w = []") simp_all
  ultimately show ?case using ih z' by simp
qed

lemma is_marker_code:
  "w \<in> set iso_codes \<Longrightarrow> map ascii_lower v = map ascii_lower w \<Longrightarrow> is_marker v"
  by (auto simp: is_marker_def)

lemma Codes_mem:
  assumes "y \<in> set (ms s Codes st)"
  shows "fst y = fst st + 3 \<and> fst y \<le> length s \<and> snd y = snd st
       \<and> is_marker (substr s (fst st) (fst y))"
proof -
  from assms obtain w where w: "w \<in> set iso_codes" and y: "y \<in> set (ms s (lit_ci w) st)"
    using ms_alt_list [of y s "map lit_ci iso_codes" st] by (auto simp: Codes_def)
  from w have l: "length w = 3" "w \<noteq> []" by (auto simp: iso_codes_def u_def)
  from ms_lit_ci [OF y] l have "fst y = fst st + 3" "fst y \<le> length s" "snd y = snd st"
      "map ascii_lower (substr s (fst st) (fst y)) = map ascii_lower w"
    by auto
  with is_marker_code [OF w] show ?thesis by blast
qed

lemma ms_seq_listD:
  "m \<in> set (ms s (seq_list (r # rs)) st) \<Longrightarrow> \<exists>y \<in> set (ms s r st). m \<in> set (ms s (seq_list rs) y)"
  unfolding ms_seq_list_Cons by blast

lemma ms_AltD: "m \<in> set (ms s (Alt a b) st) \<Longrightarrow> m \<in> set (ms s a st) \<or> m \<in> set (ms s b st)"
  by simp

lemma ms_WordB_fst: "y \<in> set (ms s WordB st) \<Longrightarrow> y = st"
  by (simp split: if_splits)

lemma ms_Cap:
  "y \<in> set (ms s (Cap n r) st) \<longleftrightarrow>
     (\<exists>z \<in> set (ms s r st). y = (fst z, (n, fst st, fst z) # snd z))"
  by auto

lemma ms_Opt_Space:
  assumes "y \<in> set (ms s (Opt Space) st)"
  shows "fst y = fst st \<or> (fst y = Suc (fst st) \<and> fst st < length s \<and> js_space (s ! fst st))"
  using assms by (auto simp: Opt_def Space_def split: if_splits)

lemma ms_Amount_start:
  assumes "y \<in> set (ms s Amount st)"
  shows "fst st < length s \<and> is_digit (s ! fst st)"
proof -
  from assms have "y \<in> set (ms s (seq_list (Digit # [Opt (Seq Digit (Opt Digit)),
      Star (seq_list [Sep, Digit, Digit, Digit]), Opt (seq_list [Sep, Digit, Digit])])) st)"
    by (simp only: Amount_def)
  from ms_seq_listD [OF this] obtain z where "z \<in> set (ms s Digit st)" by blast
  then show ?thesis by (simp add: Digit_def split: if_splits)
qed

lemma ms_Symbol:
  assumes "y \<in> set (ms s Symbol st)"
  shows "fst st < fst y \<and> fst y \<le> length s \<and> is_marker (substr s (fst st) (fst y))"
proof -
  consider (one) "y \<in> set (ms s (Atom (\<lambda>c. c \<in> set symbol_units)) st)"
    | (two) w where "w = u ''C$'' \<or> w = u ''A$''" "y \<in> set (ms s (lit_ci w) st)"
    using assms by (auto simp: Symbol_def)
  then show ?thesis
  proof cases
    case one
    then have "fst st < length s" "s ! fst st \<in> set symbol_units" "fst y = Suc (fst st)"
      by (auto split: if_splits)
    then show ?thesis by (simp add: substr1 is_marker_def)
  next
    case two
    from two(1) have l: "length w = 2" "w \<noteq> []" by (auto simp: u_def)
    from ms_lit_ci [OF two(2)] l have "fst y = fst st + 2" "fst y \<le> length s"
      "map ascii_lower (substr s (fst st) (fst y)) = map ascii_lower w"
      by auto
    with two(1) show ?thesis by (auto simp: is_marker_def)
  qed
qed

lemma re_search_from_mem:
  "re_search_from s r i n = Some (a, b, c) \<Longrightarrow> (b, c) \<in> set (ms s r (a, []))"
  by (induction n arbitrary: i) (auto split: list.splits)

lemma currency_marked_amountI:
  assumes "i < j" "j \<le> length s" "is_marker (substr s i j)"
    and "k = j \<or> (k = Suc j \<and> js_space (s ! j))" "k < length s" "is_digit (s ! k)"
  shows "currency_marked_amount s"
  unfolding currency_marked_amount_def
  using assms by (intro bexI [of _ i] bexI [of _ j] bexI [of _ k]) auto

lemma priceRe_symbol_branch:
  assumes "m \<in> set (ms s (seq_list [Opt Codes, Star Space, Cap 1 Symbol, Opt Space, Cap 2 Amount, WordB]) st)"
  shows "currency_marked_amount s"
proof -
  from ms_seq_listD [OF assms] obtain st1
    where "m \<in> set (ms s (seq_list [Star Space, Cap 1 Symbol, Opt Space, Cap 2 Amount, WordB]) st1)"
    by blast
  from ms_seq_listD [OF this] obtain st2
    where "m \<in> set (ms s (seq_list [Cap 1 Symbol, Opt Space, Cap 2 Amount, WordB]) st2)"
    by blast
  from ms_seq_listD [OF this] obtain st3
    where s3: "st3 \<in> set (ms s (Cap 1 Symbol) st2)"
      and "m \<in> set (ms s (seq_list [Opt Space, Cap 2 Amount, WordB]) st3)"
    by blast
  from ms_seq_listD [OF this(2)] obtain st4
    where s4: "st4 \<in> set (ms s (Opt Space) st3)"
      and "m \<in> set (ms s (seq_list [Cap 2 Amount, WordB]) st4)"
    by blast
  from ms_seq_listD [OF this(2)] obtain st5
    where s5: "st5 \<in> set (ms s (Cap 2 Amount) st4)"
    by blast
  from s3 obtain z3 where z3: "z3 \<in> set (ms s Symbol st2)" "fst st3 = fst z3"
    unfolding ms_Cap by auto
  from s5 obtain z5 where z5: "z5 \<in> set (ms s Amount st4)"
    unfolding ms_Cap by auto
  from ms_Symbol [OF z3(1)] ms_Opt_Space [OF s4] ms_Amount_start [OF z5] z3(2)
  show ?thesis by (intro currency_marked_amountI [of "fst st2" "fst st3" s "fst st4"]) auto
qed

lemma priceRe_code_branch:
  assumes "m \<in> set (ms s (seq_list [seq_list [WordB, Cap 3 Codes, WordB], Opt Space, Cap 4 Amount, WordB]) st)"
  shows "currency_marked_amount s"
proof -
  from ms_seq_listD [OF assms] obtain st1
    where s1: "st1 \<in> set (ms s (seq_list [WordB, Cap 3 Codes, WordB]) st)"
      and "m \<in> set (ms s (seq_list [Opt Space, Cap 4 Amount, WordB]) st1)"
    by blast
  from ms_seq_listD [OF this(2)] obtain st2
    where s2: "st2 \<in> set (ms s (Opt Space) st1)"
      and "m \<in> set (ms s (seq_list [Cap 4 Amount, WordB]) st2)"
    by blast
  from ms_seq_listD [OF this(2)] obtain st3
    where s3: "st3 \<in> set (ms s (Cap 4 Amount) st2)"
    by blast
  from ms_seq_listD [OF s1] obtain a
    where a: "a \<in> set (ms s WordB st)" "st1 \<in> set (ms s (seq_list [Cap 3 Codes, WordB]) a)"
    by blast
  from ms_seq_listD [OF a(2)] obtain b
    where b: "b \<in> set (ms s (Cap 3 Codes) a)" "st1 \<in> set (ms s (seq_list [WordB]) b)"
    by blast
  from a(1) have "a = st" by (rule ms_WordB_fst)
  moreover from b(2) have "st1 = b" by (simp split: if_splits)
  ultimately have "st1 \<in> set (ms s (Cap 3 Codes) st)" using b(1) by simp
  then obtain z1 where z1: "z1 \<in> set (ms s Codes st)" "fst st1 = fst z1"
    unfolding ms_Cap by auto
  from s3 obtain z3 where z3: "z3 \<in> set (ms s Amount st2)"
    unfolding ms_Cap by auto
  from Codes_mem [OF z1(1)] ms_Opt_Space [OF s2] ms_Amount_start [OF z3] z1(2)
  show ?thesis by (intro currency_marked_amountI [of "fst st" "fst st1" s "fst st2"]) auto
qed

lemma priceRe_match:
  assumes "m \<in> set (ms s priceRe st)"
  shows "currency_marked_amount s"
  using ms_AltD [OF assms [unfolded priceRe_def]] priceRe_symbol_branch priceRe_code_branch
  by blast

lemma has_currency_marker_drop:
  "has_currency_marker (drop i t) \<Longrightarrow> has_currency_marker t"
proof (induction t arbitrary: i)
  case Nil
  then show ?case by simp
next
  case (Cons c cs)
  then show ?case by (cases i) auto
qed

lemma is_marker_has_marker:
  assumes "is_marker w" and "w = take (length w) v"
  shows "has_currency_marker v"
proof -
  from assms(1) consider
    (symbol) c where "w = [c]" "c \<in> set symbol_units"
    | (dollar) "map ascii_lower w = u ''c$'' \<or> map ascii_lower w = u ''a$''"
    | (code) "map ascii_lower w \<in> set (map (map ascii_lower) iso_codes)"
    by (auto simp: is_marker_def u_def ascii_lower_def)
  then show ?thesis
  proof cases
    case symbol
    with assms(2) show ?thesis by (cases v) auto
  next
    case dollar
    then obtain a where w: "w = [a, 36]"
      by (auto simp: u_def map_eq_Cons_conv ascii_lower_def split: if_splits)
    with assms(2) obtain v' where "v = a # 36 # v'"
      by (cases v; cases "tl v") auto
    then show ?thesis by (simp add: symbol_units_def)
  next
    case code
    then have "length w = 3"
      by (auto simp: iso_codes_def u_def dest!: arg_cong [of "map ascii_lower w" _ length])
    with assms(2) code show ?thesis by (cases v) auto
  qed
qed

lemma marked_has_marker:
  assumes "currency_marked_amount t"
  shows "has_currency_marker t"
proof -
  from assms obtain i j where ij: "i < j" "j \<le> length t" "is_marker (substr t i j)"
    unfolding currency_marked_amount_def by auto
  then have "substr t i j = take (length (substr t i j)) (drop i t)"
    by (simp add: substr_def)
  from is_marker_has_marker [OF ij(3) this] show ?thesis
    by (rule has_currency_marker_drop)
qed

text \<open>
  Claim C5 (currency-marker requirement). \<open>extractPrice\<close> returns a result only for a text
  in which a currency symbol or an ISO code is followed, directly or after one white-space
  character, by the first digit of an amount; on a text with no currency marker at all,
  whatever numbers it holds, it returns \<open>null\<close>.
\<close>

theorem extractPrice_requires_currency:
  "(extractPrice P t \<noteq> None \<longrightarrow> currency_marked_amount t)
   \<and> (\<not> has_currency_marker t \<longrightarrow> extractPrice P t = None)"
proof -
  have a: "currency_marked_amount t" if "extractPrice P t \<noteq> None"
  proof -
    from that obtain a b c where "re_exec priceRe t = Some (a, b, c)"
      by (auto simp: extractPrice_def split: option.splits)
    then have "(b, c) \<in> set (ms t priceRe (a, []))"
      unfolding re_exec_def by (rule re_search_from_mem)
    then show ?thesis by (rule priceRe_match)
  qed
  with marked_has_marker show ?thesis by blast
qed

theorem extractPrice_requires_currency_witness:
  "extractPrice ref_platform (u ''Widget $49.99 each'')
      = Some \<lparr>price_amount = u ''49.99'', priceCurrency = u ''USD''\<rparr>
   \<and> currency_marked_amount (u ''Widget $49.99 each'')
   \<and> \<not> has_currency_marker (u ''Total 49.99 now'')
   \<and> extractPrice ref_platform (u ''Total 49.99 now'') = None"
proof -
  have w1: "extractPrice ref_platform (u ''Widget $49.99 each'')
      = Some \<lparr>price_amount = u ''49.99'', priceCurrency = u ''USD''\<rparr>"
    by (simp add: regex_eval price_eval ref_eval floor_rat_numeral_div)
  have w2: "\<not> has_currency_marker (u ''Total 49.99 now'')"
    by (simp add: u_def symbol_units_def iso_codes_def ascii_lower_def)
  show ?thesis
    using extractPrice_requires_currency [of ref_platform "u ''Widget $49.99 each''"]
      extractPrice_requires_currency [of ref_platform "u ''Total 49.99 now''"] w1 w2
    by simp
qed

section \<open>Properties of the inference engine\<close>

lemma obj_keys_simps [simp]:
  "obj_keys [] = {}" "obj_keys ((k, v) # ob) = insert k (obj_keys ob)"
  by (simp_all add: obj_keys_def)

lemma keys_obj_set: "obj_keys (obj_set k v ob) = insert k (obj_keys ob)"
  unfolding obj_keys_def by (induction ob) (auto simp: obj_set_def)


lemma keys_addProvenance:
  "obj_keys (addProvenance target key c src m) = insert K_inferred (obj_keys target)"
proof -
  have "K_inferred \<in> obj_keys target" if "truthy_opt (obj_get target K_inferred)"
    using that unfolding obj_keys_def
    by (cases "obj_get target K_inferred")
       (auto simp: obj_get_def dest: map_of_SomeD intro: rev_image_eqI)
  then show ?thesis
    by (auto simp: addProvenance_def Let_def keys_obj_set split: option.splits json.splits)
qed

lemma keys_set_field:
  "obj_keys (set_field key v c m inferred) = insert key (insert K_inferred (obj_keys inferred))"
  by (auto simp: set_field_def keys_addProvenance keys_obj_set)











lemmas infer_eval = inferCapsule_def heuristic_inferred_def product_fields_def price_fields_def
  organization_fields_def article_fields_def generic_fields_def allowPriceInference_def
  guessedProduct_def resolved_type_def assertedLooksProduct_def assertedType_def ProductRe_def
  set_field_def addProvenance_def provenance_entry_def round2_def clamp01_def nonempty_opt_def
  llm_additions_def llm_runs_def llmAugmented_def apply_llm_def is_object_value_def
  own_entries_def



lemmas obj_eval = obj_get_def obj_set_def obj_delete_def asObject_def mergeCapsules_def
  merge_step_def hasExplicit_def isEmptyExplicit_def or_else_def K_context_def K_type_def
  K_inferred_def K_price_def K_priceCurrency_def DEFAULT_CONTEXT_def obj_keys_def

















lemma keys_mono_set_field: "obj_keys inferred \<subseteq> obj_keys (set_field key v c m inferred)"
  by (auto simp: keys_set_field)












end
